theory Spec2Isabelle
  imports Main "HOL-Library.AList" "HOL-Library.Word"
begin

section \<open>JavaScript string helpers used by the plugin\<close>

text \<open>
  Strings are byte strings: a JavaScript string is modelled by its UTF-8 encoding, so
  that \<open>length\<close> is the size in bytes a file of that text has. All patterns the
  source searches for are ASCII, and an ASCII byte never occurs inside a multi-byte
  UTF-8 sequence, so searching and splitting agree with the source.
\<close>

definition backslash :: char where
  "backslash = CHR 0x5C"

definition slash :: char where
  "slash = CHR ''/''"

text \<open>\<^verbatim>\<open>s.startsWith(p)\<close>\<close>

fun startsWith :: "string \<Rightarrow> string \<Rightarrow> bool" where
  "startsWith s [] = True"
| "startsWith [] (p # ps) = False"
| "startsWith (c # cs) (p # ps) = (c = p \<and> startsWith cs ps)"

text \<open>\<^verbatim>\<open>s.includes(sub)\<close>: \<open>sub\<close> occurs in \<open>s\<close> as a contiguous substring.\<close>

fun includes_str :: "string \<Rightarrow> string \<Rightarrow> bool" where
  "includes_str [] sub = (sub = [])"
| "includes_str (c # cs) sub = (startsWith (c # cs) sub \<or> includes_str cs sub)"

text \<open>\<^verbatim>\<open>path.replace(/\\/g, '/')\<close>\<close>

definition normalize_separators :: "string \<Rightarrow> string" where
  "normalize_separators p = map (\<lambda>c. if c = backslash then slash else c) p"

text \<open>\<^verbatim>\<open>s.replace(/\/+/g, '/')\<close>: every run of slashes becomes one slash.\<close>

fun collapse_slashes :: "string \<Rightarrow> string" where
  "collapse_slashes [] = []"
| "collapse_slashes [c] = [c]"
| "collapse_slashes (c # d # cs) =
     (if c = slash \<and> d = slash then collapse_slashes (d # cs)
      else c # collapse_slashes (d # cs))"

definition is_upper :: "char \<Rightarrow> bool" where
  "is_upper c = (65 \<le> (of_char c :: nat) \<and> (of_char c :: nat) \<le> 90)"

definition is_lower :: "char \<Rightarrow> bool" where
  "is_lower c = (97 \<le> (of_char c :: nat) \<and> (of_char c :: nat) \<le> 122)"

text \<open>\<^verbatim>\<open>/^[A-Za-z]:/.test(s)\<close>\<close>

fun drive_letter_prefix :: "string \<Rightarrow> bool" where
  "drive_letter_prefix (c # d # cs) = ((is_upper c \<or> is_lower c) \<and> d = CHR '':'')"
| "drive_letter_prefix cs = False"

text \<open>
  \<^verbatim>\<open>s.toLowerCase()\<close> on the ASCII letters; other bytes are kept. (No character
  outside ASCII lower-cases to a string in which one of the searched ASCII words
  appears where it did not before.)
\<close>

definition toLowerCase :: "string \<Rightarrow> string" where
  "toLowerCase s = map (\<lambda>c. if is_upper c then char_of ((of_char c :: nat) + 32) else c) s"

text \<open>\<^verbatim>\<open>s.split(sep)\<close> for a one-character separator: never returns the empty list.\<close>

fun split :: "char \<Rightarrow> string \<Rightarrow> string list" where
  "split sep [] = [[]]"
| "split sep (c # cs) =
     (if c = sep then [] # split sep cs
      else (case split sep cs of
              [] \<Rightarrow> [[c]]
            | w # ws \<Rightarrow> (c # w) # ws))"

text \<open>\<^verbatim>\<open>path.split('/').filter(segment => segment.length > 0)\<close>\<close>

definition path_segments :: "string \<Rightarrow> string list" where
  "path_segments p = filter (\<lambda>segment. length segment > 0) (split slash p)"

section \<open>Errors\<close>

text \<open>
  Every error of the source is a plain \<^verbatim>\<open>Error\<close> distinguished by its message. The
  constructors below stand for the messages; \<open>Failed w e\<close> is the re-thrown
  \<^verbatim>\<open>new Error(`Failed to ...: ${error.message}`)\<close> of a catch block, \<open>w\<close> naming
  the prefix. \<open>Host n\<close> is an exception raised by the browser (a DOMException or
  TypeError named \<open>n\<close>).
\<close>

datatype wrapper =
    Initialize_storage          \<comment> \<open>Failed to initialize storage\<close>
  | Store_directory_handle      \<comment> \<open>Failed to store directory handle\<close>
  | Get_directory_handles       \<comment> \<open>Failed to get directory handles\<close>
  | Get_directory_handle        \<comment> \<open>Failed to get directory handle\<close>
  | Remove_directory_handle     \<comment> \<open>Failed to remove directory handle\<close>
  | Get_directory_permission    \<comment> \<open>Failed to get directory permission\<close>
  | Get_stored_directories      \<comment> \<open>Failed to get stored directories\<close>
  | Switch_directory            \<comment> \<open>Failed to switch directory\<close>
  | Remove_directory            \<comment> \<open>Failed to remove directory\<close>
  | Get_file_handle             \<comment> \<open>Failed to get file handle\<close>
  | Create_file_handle          \<comment> \<open>Failed to create file handle\<close>
  | List_files                  \<comment> \<open>Failed to list files\<close>
  | Read_file                   \<comment> \<open>Failed to read file\<close>
  | Write_file                  \<comment> \<open>Failed to write file\<close>

datatype error =
    Invalid_path                \<comment> \<open>Invalid file path provided\<close>
  | Traversal                   \<comment> \<open>Directory traversal is not allowed\<close>
  | Absolute_with_access        \<comment> \<open>When directory access is granted, use paths relative to the selected directory\<close>
  | Absolute                    \<comment> \<open>Absolute paths are not allowed\<close>
  | Sensitive                   \<comment> \<open>Access to sensitive directories is not allowed\<close>
  | No_directory_permission     \<comment> \<open>No directory permission granted. Call requestDirectoryPermission first.\<close>
  | Path_empty                  \<comment> \<open>Invalid file path: path cannot be empty\<close>
  | Directory_not_found string  \<comment> \<open>Directory with ID ... not found\<close>
  | File_too_large nat          \<comment> \<open>File size exceeds maximum allowed (... bytes)\<close>
  | Type_not_allowed string     \<comment> \<open>File type .ext is not allowed\<close>
  | Host string
  | Failed wrapper error

section \<open>validateFilePath\<close>

definition sensitiveDirectories :: "string list" where
  "sensitiveDirectories = [''system'', ''windows'', ''program files'', ''etc'', ''var'']"

text \<open>
  The path argument is a string here, so the source's test
  \<^verbatim>\<open>!path || typeof path !== 'string'\<close> is \<open>path = []\<close>, which the first test has
  already answered.
\<close>

definition validateFilePath :: "string \<Rightarrow> bool \<Rightarrow> error + bool" where
  "validateFilePath path directoryAccessGranted =
     (if path = [] \<or> path = ''.'' \<or> path = ''./'' then Inr True
      else if path = [] then Inl Invalid_path
      else
        let normalizedPath = normalize_separators path in
        if includes_str normalizedPath ''../'' \<or> includes_str normalizedPath [CHR ''.'', CHR ''.'', backslash]
        then Inl Traversal
        else if directoryAccessGranted
                \<and> (startsWith normalizedPath ''/'' \<or> drive_letter_prefix normalizedPath)
        then Inl Absolute_with_access
        else if \<not> directoryAccessGranted
                \<and> (startsWith normalizedPath ''/'' \<or> drive_letter_prefix normalizedPath)
        then Inl Absolute
        else if list_ex (\<lambda>dir. includes_str (toLowerCase normalizedPath) dir) sensitiveDirectories
        then Inl Sensitive
        else Inr True)"

section \<open>File extensions\<close>

fun lastIndexOf_from :: "nat \<Rightarrow> int \<Rightarrow> string \<Rightarrow> char \<Rightarrow> int" where
  "lastIndexOf_from i found [] c = found"
| "lastIndexOf_from i found (x # xs) c =
     lastIndexOf_from (Suc i) (if x = c then int i else found) xs c"

text \<open>\<^verbatim>\<open>s.lastIndexOf(c)\<close>: the index of the last occurrence, or -1.\<close>

definition lastIndexOf :: "string \<Rightarrow> char \<Rightarrow> int" where
  "lastIndexOf s c = lastIndexOf_from 0 (- 1) s c"

text \<open>
  \<^verbatim>\<open>path.slice((path.lastIndexOf('.') - 1 >>> 0) + 2)\<close>: \<^verbatim>\<open>>>> 0\<close> reads the
  difference as an unsigned 32-bit integer, so "no dot" (-1) and "leading dot" (0) both
  give an offset beyond the end of the string, and the extension is empty.
\<close>

definition getFileExtension :: "string \<Rightarrow> string" where
  "getFileExtension path =
     drop (unat (word_of_int (lastIndexOf path CHR ''.'' - 1) :: 32 word) + 2) path"

definition textExtensions :: "string list" where
  "textExtensions = [''txt'', ''md'', ''js'', ''jsx'', ''ts'', ''tsx'', ''html'', ''css'',
     ''json'', ''csv'', ''xml'', ''py'', ''java'', ''c'', ''cpp'', ''h'', ''rb'']"

definition isTextFile :: "string \<Rightarrow> bool" where
  "isTextFile path = (let ext = toLowerCase (getFileExtension path) in ext \<in> set textExtensions)"

section \<open>The host: file system, permission prompts, pickers, IndexedDB\<close>

text \<open>
  The browser's File System Access API and IndexedDB are outside the plugin. They are
  modelled by an in-memory directory tree and a keyed record list (the state the host
  holds), and by a record of answers (what the user and the browser reply to the calls
  whose outcome the plugin cannot determine). A handle is the path of names from the root of
  the tree to the entry it denotes. The directory operations do not model a revoked
  permission: revocation is visible to the plugin through \<open>queryPermission\<close> only.
\<close>

datatype node = File string nat | Dir "(string \<times> node) list"
  \<comment> \<open>a file holds its bytes and its modification time\<close>

type_synonym handle = "string list"

datatype kind = Kind_file | Kind_directory

datatype permission = Granted | Denied | Prompt

datatype idb_request = Idb_open | Idb_add | Idb_getAll | Idb_get | Idb_delete

text \<open>The record kept in the object store \<^verbatim>\<open>directoryHandles\<close> (key path \<^verbatim>\<open>id\<close>).\<close>

record dir_record =
  dir_id :: string
  dir_name :: string
  dir_handle :: handle
  dir_path :: string
  dir_dateAdded :: string

text \<open>The \<^verbatim>\<open>File\<close> object that \<^verbatim>\<open>fileHandle.getFile()\<close> returns.\<close>

record file_object =
  file_name :: string
  file_size :: nat
  file_type :: string
  file_lastModified :: nat
  file_bytes :: string

datatype host_call =
    ShowDirectoryPicker string
  | ShowOpenFilePicker
  | ShowSaveFilePicker string
  | QueryPermission handle
  | RequestPermission handle
  | GetDirectoryHandle handle string bool
  | GetFileHandle handle string bool
  | Values handle
  | GetFile handle
  | Text string
  | ReadAsDataURL string
  | CreateWritable handle
  | Write handle string
  | Close handle
  | Idb idb_request

record host =
  showDirectoryPicker :: "string \<Rightarrow> error + handle"   \<comment> \<open>by picker id; a cancelled picker is an error\<close>
  showOpenFilePicker :: "error + handle"
  showSaveFilePicker :: "error + handle"
  queryPermission :: "handle \<Rightarrow> error + permission"
  requestPermission :: "handle \<Rightarrow> error + permission"
  idb_fault :: "idb_request \<Rightarrow> error option"          \<comment> \<open>the \<^verbatim>\<open>event.target.error\<close> of a failing request\<close>
  new_id :: string                                      \<comment> \<open>\<^verbatim>\<open>dir_${Date.now()}_${Math.random()...}\<close>\<close>
  now_iso :: string                                     \<comment> \<open>\<^verbatim>\<open>new Date().toISOString()\<close>\<close>
  clock :: nat                                          \<comment> \<open>the time stamped on a file written now\<close>
  mime_type :: "string \<Rightarrow> string"                     \<comment> \<open>\<^verbatim>\<open>File.type\<close>, from the file's name\<close>
  dataURL :: "string \<Rightarrow> string \<Rightarrow> string"            \<comment> \<open>\<^verbatim>\<open>FileReader.readAsDataURL\<close>: type and bytes\<close>

text \<open>
  The state: the fields of the \<^verbatim>\<open>DirectoryPermissionManager\<close> instance and of its
  \<^verbatim>\<open>StorageManager\<close>, the host's file system and object store, and the log of the
  host calls made so far.
\<close>

record state =
  rootDirectoryHandle :: "handle option"
  permissionGranted :: bool
  currentDirectoryId :: "string option"
  isInitialized :: bool
  fs :: node
  idb :: "(string \<times> dir_record) list"
  calls :: "host_call list"

section \<open>Asynchronous code that may throw\<close>

text \<open>
  An \<^verbatim>\<open>async\<close> function is a state transformer that returns a value or throws; the
  state it leaves behind is kept in both cases, since an assignment made before a throw
  is not undone.
\<close>

type_synonym 'a async = "state \<Rightarrow> (error + 'a) \<times> state"

definition returns :: "'a \<Rightarrow> 'a async" where
  "returns x = (\<lambda>s. (Inr x, s))"

definition throws :: "error \<Rightarrow> 'a async" where
  "throws e = (\<lambda>s. (Inl e, s))"

text \<open>\<^verbatim>\<open>const x = await m; k(x)\<close>\<close>

definition await :: "'a async \<Rightarrow> ('a \<Rightarrow> 'b async) \<Rightarrow> 'b async" where
  "await m k = (\<lambda>s. case m s of (Inl e, s') \<Rightarrow> (Inl e, s') | (Inr x, s') \<Rightarrow> k x s')"

text \<open>\<^verbatim>\<open>try { m } catch (error) { h(error) }\<close>\<close>

definition try_catch :: "'a async \<Rightarrow> (error \<Rightarrow> 'a async) \<Rightarrow> 'a async" where
  "try_catch m h = (\<lambda>s. case m s of (Inl e, s') \<Rightarrow> h e s' | (Inr x, s') \<Rightarrow> (Inr x, s'))"

definition assign :: "(state \<Rightarrow> state) \<Rightarrow> unit async" where
  "assign f = (\<lambda>s. (Inr (), f s))"

definition lift :: "error + 'a \<Rightarrow> 'a async" where
  "lift r = (\<lambda>s. (r, s))"

definition called :: "host_call \<Rightarrow> unit async" where
  "called c = assign (\<lambda>s. s\<lparr>calls := calls s @ [c]\<rparr>)"

subsection \<open>The directory tree\<close>

fun lookup :: "node \<Rightarrow> handle \<Rightarrow> node option" where
  "lookup n [] = Some n"
| "lookup (File b t) (x # xs) = None"
| "lookup (Dir es) (x # xs) = (case map_of es x of None \<Rightarrow> None | Some c \<Rightarrow> lookup c xs)"

fun update_at :: "handle \<Rightarrow> (node \<Rightarrow> node) \<Rightarrow> node \<Rightarrow> node" where
  "update_at [] f n = f n"
| "update_at (x # xs) f (File b t) = File b t"
| "update_at (x # xs) f (Dir es) =
     (case map_of es x of
        None \<Rightarrow> Dir es
      | Some c \<Rightarrow> Dir (AList.update x (update_at xs f c) es))"

definition add_child :: "string \<Rightarrow> node \<Rightarrow> node \<Rightarrow> node" where
  "add_child name child n = (case n of Dir es \<Rightarrow> Dir (es @ [(name, child)]) | File b t \<Rightarrow> File b t)"

definition kind_of :: "node \<Rightarrow> kind" where
  "kind_of n = (case n of File b t \<Rightarrow> Kind_file | Dir es \<Rightarrow> Kind_directory)"

text \<open>\<^verbatim>\<open>handle.name\<close>\<close>

definition handle_name :: "handle \<Rightarrow> string" where
  "handle_name h = (if h = [] then [] else last h)"

text \<open>A valid file name of the File System standard: not empty, not a dot entry, no separator.\<close>

definition valid_name :: "string \<Rightarrow> bool" where
  "valid_name name = (name \<noteq> [] \<and> name \<noteq> ''.'' \<and> name \<noteq> ''..'' \<and> slash \<notin> set name)"

subsection \<open>Host calls\<close>

definition host_showDirectoryPicker :: "host \<Rightarrow> string \<Rightarrow> handle async" where
  "host_showDirectoryPicker env picker_id =
     await (called (ShowDirectoryPicker picker_id)) (\<lambda>_. lift (showDirectoryPicker env picker_id))"

definition host_showOpenFilePicker :: "host \<Rightarrow> handle async" where
  "host_showOpenFilePicker env =
     await (called ShowOpenFilePicker) (\<lambda>_. lift (showOpenFilePicker env))"

definition host_queryPermission :: "host \<Rightarrow> handle \<Rightarrow> permission async" where
  "host_queryPermission env h = await (called (QueryPermission h)) (\<lambda>_. lift (queryPermission env h))"

definition host_requestPermission :: "host \<Rightarrow> handle \<Rightarrow> permission async" where
  "host_requestPermission env h =
     await (called (RequestPermission h)) (\<lambda>_. lift (requestPermission env h))"

text \<open>\<^verbatim>\<open>dirHandle.getDirectoryHandle(name, { create })\<close>\<close>

definition host_getDirectoryHandle :: "handle \<Rightarrow> string \<Rightarrow> bool \<Rightarrow> handle async" where
  "host_getDirectoryHandle h name create =
     await (called (GetDirectoryHandle h name create)) (\<lambda>_ s.
       if \<not> valid_name name then (Inl (Host ''TypeError''), s)
       else case lookup (fs s) h of
         Some (Dir es) \<Rightarrow>
           (case map_of es name of
              Some (Dir cs) \<Rightarrow> (Inr (h @ [name]), s)
            | Some (File b t) \<Rightarrow> (Inl (Host ''TypeMismatchError''), s)
            | None \<Rightarrow>
                if create
                then (Inr (h @ [name]), s\<lparr>fs := update_at h (add_child name (Dir [])) (fs s)\<rparr>)
                else (Inl (Host ''NotFoundError''), s))
       | _ \<Rightarrow> (Inl (Host ''NotFoundError''), s))"

text \<open>\<^verbatim>\<open>dirHandle.getFileHandle(name, { create })\<close>\<close>

definition host_getFileHandle :: "host \<Rightarrow> handle \<Rightarrow> string \<Rightarrow> bool \<Rightarrow> handle async" where
  "host_getFileHandle env h name create =
     await (called (GetFileHandle h name create)) (\<lambda>_ s.
       if \<not> valid_name name then (Inl (Host ''TypeError''), s)
       else case lookup (fs s) h of
         Some (Dir es) \<Rightarrow>
           (case map_of es name of
              Some (File b t) \<Rightarrow> (Inr (h @ [name]), s)
            | Some (Dir cs) \<Rightarrow> (Inl (Host ''TypeMismatchError''), s)
            | None \<Rightarrow>
                if create
                then (Inr (h @ [name]),
                      s\<lparr>fs := update_at h (add_child name (File [] (clock env))) (fs s)\<rparr>)
                else (Inl (Host ''NotFoundError''), s))
       | _ \<Rightarrow> (Inl (Host ''NotFoundError''), s))"

text \<open>\<^verbatim>\<open>for await (const entry of dirHandle.values())\<close>: the entries, each with its kind.\<close>

definition host_values :: "handle \<Rightarrow> (string \<times> kind) list async" where
  "host_values h =
     await (called (Values h)) (\<lambda>_ s.
       case lookup (fs s) h of
         Some (Dir es) \<Rightarrow> (Inr (map (\<lambda>(name, child). (name, kind_of child)) es), s)
       | _ \<Rightarrow> (Inl (Host ''NotFoundError''), s))"

text \<open>\<^verbatim>\<open>fileHandle.getFile()\<close>\<close>

definition host_getFile :: "host \<Rightarrow> handle \<Rightarrow> file_object async" where
  "host_getFile env h =
     await (called (GetFile h)) (\<lambda>_ s.
       case lookup (fs s) h of
         Some (File b t) \<Rightarrow>
           (Inr \<lparr>file_name = handle_name h, file_size = length b,
                 file_type = mime_type env (handle_name h), file_lastModified = t,
                 file_bytes = b\<rparr>, s)
       | _ \<Rightarrow> (Inl (Host ''NotFoundError''), s))"

text \<open>\<^verbatim>\<open>file.text()\<close>: the bytes decoded as UTF-8, which is the string they model.\<close>

definition host_text :: "file_object \<Rightarrow> string async" where
  "host_text file = await (called (Text (file_name file))) (\<lambda>_. returns (file_bytes file))"

text \<open>\<^verbatim>\<open>new FileReader().readAsDataURL(file)\<close>, resolved with \<^verbatim>\<open>reader.result\<close>.\<close>

definition host_readAsDataURL :: "host \<Rightarrow> file_object \<Rightarrow> string async" where
  "host_readAsDataURL env file =
     await (called (ReadAsDataURL (file_name file)))
       (\<lambda>_. returns (dataURL env (file_type file) (file_bytes file)))"

text \<open>
  A writable stream is the handle it was opened on and the data written to it so far;
  the file is replaced by that data when the stream is closed.
\<close>

type_synonym writable = "handle \<times> string"

definition host_createWritable :: "handle \<Rightarrow> writable async" where
  "host_createWritable h =
     await (called (CreateWritable h)) (\<lambda>_ s.
       case lookup (fs s) h of
         Some (File b t) \<Rightarrow> (Inr (h, []), s)
       | _ \<Rightarrow> (Inl (Host ''NotFoundError''), s))"

definition host_write :: "writable \<Rightarrow> string \<Rightarrow> writable async" where
  "host_write w content =
     await (called (Write (fst w) content)) (\<lambda>_. returns (fst w, snd w @ content))"

definition host_close :: "host \<Rightarrow> writable \<Rightarrow> unit async" where
  "host_close env w =
     await (called (Close (fst w))) (\<lambda>_ s.
       case lookup (fs s) (fst w) of
         Some (File b t) \<Rightarrow>
           (Inr (), s\<lparr>fs := update_at (fst w) (\<lambda>_. File (snd w) (clock env)) (fs s)\<rparr>)
       | _ \<Rightarrow> (Inl (Host ''NotFoundError''), s))"

text \<open>
  \<^verbatim>\<open>window.showSaveFilePicker({ suggestedName })\<close>: the host creates the chosen file
  when its directory has no entry of that name.
\<close>

definition host_showSaveFilePicker :: "host \<Rightarrow> string \<Rightarrow> handle async" where
  "host_showSaveFilePicker env suggestedName =
     await (called (ShowSaveFilePicker suggestedName)) (\<lambda>_.
       await (lift (showSaveFilePicker env)) (\<lambda>h s.
         case lookup (fs s) h of
           None \<Rightarrow>
             (Inr h, s\<lparr>fs := update_at (butlast h)
                               (add_child (handle_name h) (File [] (clock env))) (fs s)\<rparr>)
         | Some n \<Rightarrow> (Inr h, s)))"

text \<open>An IndexedDB request: it fails with the host's error or succeeds.\<close>

definition idb_request :: "host \<Rightarrow> idb_request \<Rightarrow> unit async" where
  "idb_request env r =
     await (called (Idb r)) (\<lambda>_.
       case idb_fault env r of Some e \<Rightarrow> throws e | None \<Rightarrow> returns ())"

section \<open>StorageManager\<close>

text \<open>
  Each method returns its request's promise from inside its \<^verbatim>\<open>try\<close> block without
  awaiting it, so a failing request rejects with the message built in \<^verbatim>\<open>onerror\<close>
  and the \<^verbatim>\<open>catch\<close> block is not entered; \<^verbatim>\<open>await this.initialize()\<close> stands
  before the \<^verbatim>\<open>try\<close>.
\<close>

definition initialize :: "host \<Rightarrow> bool async" where
  "initialize env = (\<lambda>s.
     if isInitialized s then returns True s
     else
       try_catch
         (await (idb_request env Idb_open) (\<lambda>_.
          await (assign (\<lambda>s. s\<lparr>isInitialized := True\<rparr>)) (\<lambda>_.
          returns True)))
         (\<lambda>error. throws (Failed Initialize_storage error)) s)"

definition storeDirectoryHandle :: "host \<Rightarrow> handle \<Rightarrow> string \<Rightarrow> string async" where
  "storeDirectoryHandle env dirHandle name =
     await (initialize env) (\<lambda>_.
       let ident = new_id env;
           record = \<lparr>dir_id = ident,
                     dir_name = (if name \<noteq> [] then name else handle_name dirHandle),
                     dir_handle = dirHandle,
                     dir_path = handle_name dirHandle,
                     dir_dateAdded = now_iso env\<rparr>
       in try_catch
            (await (idb_request env Idb_add) (\<lambda>_ s.
               if map_of (idb s) ident \<noteq> None then throws (Host ''ConstraintError'') s
               else returns ident (s\<lparr>idb := idb s @ [(ident, record)]\<rparr>)))
            (\<lambda>error. throws (Failed Store_directory_handle error)))"

definition getAllDirectoryHandles :: "host \<Rightarrow> dir_record list async" where
  "getAllDirectoryHandles env =
     await (initialize env) (\<lambda>_.
       try_catch
         (await (idb_request env Idb_getAll) (\<lambda>_ s. returns (map snd (idb s)) s))
         (\<lambda>error. throws (Failed Get_directory_handles error)))"

text \<open>\<^verbatim>\<open>StorageManager.getDirectoryHandle(id)\<close>: the record, or \<^verbatim>\<open>null\<close>.\<close>

definition storage_getDirectoryHandle :: "host \<Rightarrow> string \<Rightarrow> dir_record option async" where
  "storage_getDirectoryHandle env ident =
     await (initialize env) (\<lambda>_.
       try_catch
         (await (idb_request env Idb_get) (\<lambda>_ s. returns (map_of (idb s) ident) s))
         (\<lambda>error. throws (Failed Get_directory_handle error)))"

definition removeDirectoryHandle :: "host \<Rightarrow> string \<Rightarrow> bool async" where
  "removeDirectoryHandle env ident =
     await (initialize env) (\<lambda>_.
       try_catch
         (await (idb_request env Idb_delete) (\<lambda>_ s.
            returns True (s\<lparr>idb := AList.delete ident (idb s)\<rparr>)))
         (\<lambda>error. throws (Failed Remove_directory_handle error)))"

section \<open>DirectoryPermissionManager\<close>

text \<open>The constructor, on a host with the given file system and object store.\<close>

definition new_DirectoryPermissionManager :: "node \<Rightarrow> (string \<times> dir_record) list \<Rightarrow> state" where
  "new_DirectoryPermissionManager tree store =
     \<lparr>rootDirectoryHandle = None, permissionGranted = False, currentDirectoryId = None,
      isInitialized = False, fs = tree, idb = store, calls = []\<rparr>"

definition verifyPermission :: "host \<Rightarrow> handle \<Rightarrow> bool \<Rightarrow> bool async" where
  "verifyPermission env dirHandle askForPermission =
     await (host_queryPermission env dirHandle) (\<lambda>p.
       if p = Granted then returns True
       else if askForPermission
       then await (host_requestPermission env dirHandle) (\<lambda>q. returns (q = Granted))
       else returns False)"

definition requestDirectoryPermission :: "host \<Rightarrow> bool async" where
  "requestDirectoryPermission env =
     try_catch
       (await (host_showDirectoryPicker env ''file-plugin-root-dir'') (\<lambda>picked.
        await (assign (\<lambda>s. s\<lparr>rootDirectoryHandle := Some picked\<rparr>)) (\<lambda>_.
        await (verifyPermission env picked True) (\<lambda>verified.
        await (assign (\<lambda>s. s\<lparr>permissionGranted := verified\<rparr>)) (\<lambda>_.
        await (if verified
               then await (storeDirectoryHandle env picked [])
                      (\<lambda>ident. assign (\<lambda>s. s\<lparr>currentDirectoryId := Some ident\<rparr>))
               else returns ()) (\<lambda>_.
        returns verified))))))
       (\<lambda>error.
        await (assign (\<lambda>s. s\<lparr>permissionGranted := False\<rparr>)) (\<lambda>_.
        throws (Failed Get_directory_permission error)))"

text \<open>One element of \<^verbatim>\<open>verifiedDirectories\<close>; \<open>vd_error\<close> is the optional \<^verbatim>\<open>error\<close> field.\<close>

record verified_directory =
  vd_id :: string
  vd_name :: string
  vd_path :: string
  vd_hasPermission :: bool
  vd_dateAdded :: string
  vd_error :: "error option"

text \<open>The body of \<^verbatim>\<open>for (const dir of directories)\<close>: it catches what the check throws.\<close>

definition verify_directory :: "host \<Rightarrow> dir_record \<Rightarrow> verified_directory async" where
  "verify_directory env dir =
     try_catch
       (await (verifyPermission env (dir_handle dir) False) (\<lambda>hasPermission.
          returns \<lparr>vd_id = dir_id dir, vd_name = dir_name dir, vd_path = dir_path dir,
                   vd_hasPermission = hasPermission, vd_dateAdded = dir_dateAdded dir,
                   vd_error = None\<rparr>))
       (\<lambda>error.
          returns \<lparr>vd_id = dir_id dir, vd_name = dir_name dir, vd_path = dir_path dir,
                   vd_hasPermission = False, vd_dateAdded = dir_dateAdded dir,
                   vd_error = Some error\<rparr>)"

fun verify_directories ::
  "host \<Rightarrow> dir_record list \<Rightarrow> verified_directory list \<Rightarrow> verified_directory list async" where
  "verify_directories env [] verifiedDirectories = returns verifiedDirectories"
| "verify_directories env (dir # directories) verifiedDirectories =
     await (verify_directory env dir) (\<lambda>v.
       verify_directories env directories (verifiedDirectories @ [v]))"

definition getStoredDirectories :: "host \<Rightarrow> verified_directory list async" where
  "getStoredDirectories env =
     try_catch
       (await (getAllDirectoryHandles env) (\<lambda>directories.
          verify_directories env directories []))
       (\<lambda>error. throws (Failed Get_stored_directories error))"

definition switchDirectory :: "host \<Rightarrow> string \<Rightarrow> bool async" where
  "switchDirectory env directoryId =
     try_catch
       (await (storage_getDirectoryHandle env directoryId) (\<lambda>dirRecord.
          case dirRecord of
            None \<Rightarrow> throws (Directory_not_found directoryId)
          | Some found \<Rightarrow>
              await (verifyPermission env (dir_handle found) True) (\<lambda>verified.
              await (assign (\<lambda>s. s\<lparr>permissionGranted := verified\<rparr>)) (\<lambda>_.
                if verified
                then await (assign (\<lambda>s. s\<lparr>rootDirectoryHandle := Some (dir_handle found),
                                            currentDirectoryId := Some directoryId\<rparr>))
                       (\<lambda>_. returns True)
                else returns False))))
       (\<lambda>error. throws (Failed Switch_directory error))"

definition removeDirectory :: "host \<Rightarrow> string \<Rightarrow> bool async" where
  "removeDirectory env directoryId =
     try_catch
       (await (assign (\<lambda>s.
                 if currentDirectoryId s = Some directoryId
                 then s\<lparr>rootDirectoryHandle := None, permissionGranted := False,
                        currentDirectoryId := None\<rparr>
                 else s)) (\<lambda>_.
        await (removeDirectoryHandle env directoryId) (\<lambda>result.
        returns result)))
       (\<lambda>error. throws (Failed Remove_directory error))"

text \<open>
  The loop \<^verbatim>\<open>for (const segment of segments) currentDir = await
  currentDir.getDirectoryHandle(segment, { create })\<close>.
\<close>

fun navigate :: "handle \<Rightarrow> string list \<Rightarrow> bool \<Rightarrow> handle async" where
  "navigate currentDir [] create = returns currentDir"
| "navigate currentDir (segment # segments) create =
     await (host_getDirectoryHandle currentDir segment create) (\<lambda>next.
       navigate next segments create)"

definition getFileHandle :: "host \<Rightarrow> string \<Rightarrow> handle async" where
  "getFileHandle env path = (\<lambda>s.
     case rootDirectoryHandle s of
       None \<Rightarrow> throws No_directory_permission s
     | Some root \<Rightarrow>
         try_catch
           (let segments = path_segments path in
            if length segments = 0 then throws Path_empty
            else
              let fileName = last segments in
              await (navigate root (butlast segments) False) (\<lambda>currentDir.
                host_getFileHandle env currentDir fileName False))
           (\<lambda>error. throws (Failed Get_file_handle error)) s)"

text \<open>\<^verbatim>\<open>DirectoryPermissionManager.getDirectoryHandle(path)\<close>\<close>

definition getDirectoryHandle :: "string \<Rightarrow> handle async" where
  "getDirectoryHandle path = (\<lambda>s.
     case rootDirectoryHandle s of
       None \<Rightarrow> throws No_directory_permission s
     | Some root \<Rightarrow>
         try_catch
           (if path = [] \<or> path = ''/'' \<or> path = ''.'' then returns root
            else navigate root (path_segments path) False)
           (\<lambda>error. throws (Failed Get_directory_handle error)) s)"

definition createFileHandle :: "host \<Rightarrow> string \<Rightarrow> handle async" where
  "createFileHandle env path = (\<lambda>s.
     case rootDirectoryHandle s of
       None \<Rightarrow> throws No_directory_permission s
     | Some root \<Rightarrow>
         try_catch
           (let segments = path_segments path in
            if length segments = 0 then throws Path_empty
            else
              let fileName = last segments in
              await (navigate root (butlast segments) True) (\<lambda>currentDir.
                host_getFileHandle env currentDir fileName True))
           (\<lambda>error. throws (Failed Create_file_handle error)) s)"

definition hasPermission :: "state \<Rightarrow> bool" where
  "hasPermission s = (rootDirectoryHandle s \<noteq> None \<and> permissionGranted s)"

definition getRootDirectoryName :: "state \<Rightarrow> string" where
  "getRootDirectoryName s =
     (case rootDirectoryHandle s of Some root \<Rightarrow> handle_name root | None \<Rightarrow> [])"

section \<open>FileAccessManager\<close>

record FileAccessManager =
  baseDirectory :: string
  maxFileSize :: nat
  allowedExtensions :: "string list option"

text \<open>
  The constructor's three options, each optional: a missing, empty or zero option is
  falsy and takes the default.
\<close>

definition new_FileAccessManager ::
  "string option \<Rightarrow> nat option \<Rightarrow> string list option \<Rightarrow> FileAccessManager" where
  "new_FileAccessManager opt_baseDirectory opt_maxFileSize opt_allowedExtensions =
     \<lparr>baseDirectory = (case opt_baseDirectory of Some d \<Rightarrow> d | None \<Rightarrow> []),
      maxFileSize = (case opt_maxFileSize of
                       Some n \<Rightarrow> if n \<noteq> 0 then n else 10 * 1024 * 1024
                     | None \<Rightarrow> 10 * 1024 * 1024),
      allowedExtensions = opt_allowedExtensions\<rparr>"

text \<open>\<^verbatim>\<open>_resolvePath(relativePath)\<close>\<close>

definition resolvePath :: "FileAccessManager \<Rightarrow> string \<Rightarrow> string async" where
  "resolvePath this relativePath = (\<lambda>s.
     await (lift (validateFilePath relativePath (hasPermission s))) (\<lambda>_.
       returns (if baseDirectory this \<noteq> []
                then collapse_slashes (baseDirectory this @ ''/'' @ relativePath)
                else relativePath)) s)"

text \<open>One element of the list \<^verbatim>\<open>listFiles\<close> returns.\<close>

record file_entry =
  entry_name :: string
  entry_kind :: kind
  entry_path :: string

definition listFiles :: "FileAccessManager \<Rightarrow> host \<Rightarrow> string \<Rightarrow> file_entry list async" where
  "listFiles this env directory =
     try_catch
       (\<lambda>s.
          if hasPermission s
          then
            (await (getDirectoryHandle directory) (\<lambda>dirHandle.
             await (host_values dirHandle) (\<lambda>entries.
             returns (map (\<lambda>(name, kind).
                        \<lparr>entry_name = name, entry_kind = kind,
                         entry_path = (if directory \<noteq> []
                                       then collapse_slashes (directory @ ''/'' @ name)
                                       else name)\<rparr>) entries)))) s
          else
            (await (resolvePath this directory) (\<lambda>dirPath.
             await (host_showDirectoryPicker env ''file-plugin-dir'') (\<lambda>dirHandle.
             await (host_values dirHandle) (\<lambda>entries.
             returns (map (\<lambda>(name, kind).
                        \<lparr>entry_name = name, entry_kind = kind,
                         entry_path = collapse_slashes (directory @ ''/'' @ name)\<rparr>)
                      entries))))) s)
       (\<lambda>error. throws (Failed List_files error))"

text \<open>What \<^verbatim>\<open>readFile\<close> returns.\<close>

record read_result =
  result_content :: string
  result_name :: string
  result_size :: nat
  result_type :: string
  result_lastModified :: nat

text \<open>
  \<^verbatim>\<open>readFile\<close>, first part: obtaining the \<^verbatim>\<open>File\<close> object, under the granted
  directory or from the open-file picker.
\<close>

definition readFile_file :: "FileAccessManager \<Rightarrow> host \<Rightarrow> string \<Rightarrow> file_object async" where
  "readFile_file this env filePath = (\<lambda>s.
     if hasPermission s \<and> filePath \<noteq> []
     then
       (await (getFileHandle env filePath) (\<lambda>fileHandle.
          host_getFile env fileHandle)) s
     else
       (await (resolvePath this filePath) (\<lambda>fullPath.
        await (host_showOpenFilePicker env) (\<lambda>fileHandle.
          host_getFile env fileHandle))) s)"

text \<open>
  \<^verbatim>\<open>readFile\<close>, second part: the size check, the extension check, and the content.
  \<^verbatim>\<open>file.name.split('.').pop()\<close> is the text after the last dot, or the whole name.
\<close>

definition readFile_content :: "FileAccessManager \<Rightarrow> host \<Rightarrow> file_object \<Rightarrow> read_result async" where
  "readFile_content this env file =
     (if file_size file > maxFileSize this then throws (File_too_large (maxFileSize this))
      else
        await (case allowedExtensions this of
                 Some allowed \<Rightarrow>
                   let ext = toLowerCase (last (split CHR ''.'' (file_name file))) in
                   if ext \<notin> set allowed then throws (Type_not_allowed ext) else returns ()
               | None \<Rightarrow> returns ()) (\<lambda>_.
        await (if isTextFile (file_name file) then host_text file
               else host_readAsDataURL env file) (\<lambda>content.
        returns \<lparr>result_content = content, result_name = file_name file,
                 result_size = file_size file, result_type = file_type file,
                 result_lastModified = file_lastModified file\<rparr>)))"

definition readFile :: "FileAccessManager \<Rightarrow> host \<Rightarrow> string \<Rightarrow> read_result async" where
  "readFile this env filePath =
     try_catch
       (await (readFile_file this env filePath) (\<lambda>file. readFile_content this env file))
       (\<lambda>error. throws (Failed Read_file error))"

definition writeFile :: "FileAccessManager \<Rightarrow> host \<Rightarrow> string \<Rightarrow> string \<Rightarrow> bool async" where
  "writeFile this env filePath content =
     try_catch
       (await (\<lambda>s.
                 if hasPermission s \<and> filePath \<noteq> []
                 then createFileHandle env filePath s
                 else
                   (await (resolvePath this filePath) (\<lambda>fullPath.
                      host_showSaveFilePicker env (last (split slash filePath)))) s)
          (\<lambda>fileHandle.
        await (host_createWritable fileHandle) (\<lambda>writable.
        await (host_write writable content) (\<lambda>writable.
        await (host_close env writable) (\<lambda>_.
        returns True)))))
       (\<lambda>error. throws (Failed Write_file error))"

section \<open>A concrete host and session\<close>

text \<open>
  A host whose user picks the directory \<^verbatim>\<open>docs\<close>, cancels the file pickers and denies
  a permission prompt, and a session in which that directory is the granted root and
  holds \<^verbatim>\<open>notes/a.txt\<close>.
\<close>

definition demo_host :: host where
  "demo_host =
     \<lparr>showDirectoryPicker = (\<lambda>_. Inr [''docs'']),
      showOpenFilePicker = Inl (Host ''AbortError''),
      showSaveFilePicker = Inl (Host ''AbortError''),
      queryPermission = (\<lambda>_. Inr Prompt),
      requestPermission = (\<lambda>_. Inr Denied),
      idb_fault = (\<lambda>_. None),
      new_id = ''dir_1_x'', now_iso = ''2025-03-03T11:28:56.000Z'', clock = 7,
      mime_type = (\<lambda>_. ''text/plain''),
      dataURL = (\<lambda>t b. ''data:'' @ t @ '';base64,'')\<rparr>"

definition demo_manager :: FileAccessManager where
  "demo_manager = new_FileAccessManager None (Some 1024) None"

definition demo_record :: dir_record where
  "demo_record =
     \<lparr>dir_id = ''dir_1_x'', dir_name = ''docs'', dir_handle = [''docs''],
      dir_path = ''docs'', dir_dateAdded = ''2025-03-03T11:28:56.000Z''\<rparr>"

definition demo_granted :: state where
  "demo_granted =
     \<lparr>rootDirectoryHandle = Some [''docs''], permissionGranted = True,
      currentDirectoryId = Some ''dir_1_x'', isInitialized = True,
      fs = Dir [(''docs'', Dir [(''notes'', Dir [(''a.txt'', File ''hello'' 7)])])],
      idb = [(''dir_1_x'', demo_record)],
      calls = []\<rparr>"

section \<open>Session state\<close>

text \<open>
  The session state of the specification is \<open>activeToken\<close> (\<open>rootDirectoryHandle\<close>),
  \<open>activeGrantId\<close> (\<open>currentDirectoryId\<close>) and \<open>cachedPermission\<close>
  (\<open>permissionGranted\<close>, the result of the last verification).
\<close>

definition same_session :: "state \<Rightarrow> state \<Rightarrow> bool" where
  "same_session s s' =
     (rootDirectoryHandle s' = rootDirectoryHandle s
      \<and> permissionGranted s' = permissionGranted s
      \<and> currentDirectoryId s' = currentDirectoryId s)"

text \<open>
  The invariant in the specification's words: the token is non-null iff the grant id
  is non-null and the last verification succeeded.
\<close>

definition session_invariant :: "state \<Rightarrow> bool" where
  "session_invariant s =
     ((rootDirectoryHandle s \<noteq> None) = (currentDirectoryId s \<noteq> None \<and> permissionGranted s))"

text \<open>
  What the code keeps of it: a true cached permission comes with a grant id, and a
  grant id comes with a token. So the grant id and the permission together imply the
  token, as in the specification's invariant, and \<open>hasPermission\<close> implies an
  active grant id; only the token alone implies nothing.
\<close>

definition token_invariant :: "state \<Rightarrow> bool" where
  "token_invariant s =
     ((permissionGranted s \<longrightarrow> currentDirectoryId s \<noteq> None)
      \<and> (currentDirectoryId s \<noteq> None \<longrightarrow> rootDirectoryHandle s \<noteq> None))"

section \<open>Listing the stored directories\<close>

text \<open>
  What the listing is to report for one stored grant, in the specification's words:
  whether the permission is granted, found without asking; a check that throws is
  reported as no permission, with the error attached.
\<close>

definition listed_directory :: "host \<Rightarrow> dir_record \<Rightarrow> verified_directory" where
  "listed_directory env dir =
     \<lparr>vd_id = dir_id dir, vd_name = dir_name dir, vd_path = dir_path dir,
      vd_hasPermission = (queryPermission env (dir_handle dir) = Inr Granted),
      vd_dateAdded = dir_dateAdded dir,
      vd_error = (case queryPermission env (dir_handle dir) of
                    Inl e \<Rightarrow> Some e | Inr p \<Rightarrow> None)\<rparr>"

text \<open>
  A store with a second grant, and a host whose permission query throws for the first
  directory and answers granted for every other.
\<close>

definition demo_two_grants :: state where
  "demo_two_grants =
     demo_granted\<lparr>idb := [(''dir_1_x'', demo_record),
                           (''dir_2_y'', \<lparr>dir_id = ''dir_2_y'', dir_name = ''music'',
                              dir_handle = [''music''], dir_path = ''music'',
                              dir_dateAdded = ''2025-03-04T09:00:00.000Z''\<rparr>)]\<rparr>"

definition demo_throwing_host :: host where
  "demo_throwing_host =
     demo_host\<lparr>queryPermission :=
       (\<lambda>h. if h = [''docs''] then Inl (Host ''InvalidStateError'') else Inr Granted)\<rparr>"

section \<open>Classes of host calls\<close>

text \<open>The calls that decode a file's content.\<close>

fun is_decode :: "host_call \<Rightarrow> bool" where
  "is_decode (Text n) = True"
| "is_decode (ReadAsDataURL n) = True"
| "is_decode c = False"

text \<open>The calls that look an entry up in a directory.\<close>

fun is_lookup :: "host_call \<Rightarrow> bool" where
  "is_lookup (GetDirectoryHandle h n c) = True"
| "is_lookup (GetFileHandle h n c) = True"
| "is_lookup (Values h) = True"
| "is_lookup c = False"

text \<open>A manager whose size ceiling is three bytes, and a host whose user picks a file.\<close>

definition demo_small_manager :: FileAccessManager where
  "demo_small_manager = new_FileAccessManager None (Some 3) None"

definition demo_picking_host :: host where
  "demo_picking_host = demo_host\<lparr>showOpenFilePicker := Inr [''docs'', ''notes'', ''a.txt'']\<rparr>"

text \<open>The session with an active grant on an empty directory.\<close>

definition demo_fresh :: state where
  "demo_fresh = demo_granted\<lparr>fs := Dir [(''docs'', Dir [])]\<rparr>"

section \<open>Joining a directory and an entry name\<close>

text \<open>
  "Repeated separators collapsed", in the specification's words and without recursion:
  every slash that directly follows a slash is dropped, every other character is kept.
\<close>

definition drop_repeated_slashes :: "string \<Rightarrow> string" where
  "drop_repeated_slashes p =
     map fst (filter (\<lambda>(c, before). \<not> (c = slash \<and> before = Some slash))
                (zip p (None # map Some p)))"

section \<open>Path validation\<close>

lemmas string_defs = normalize_separators_def backslash_def slash_def sensitiveDirectories_def
  toLowerCase_def is_upper_def is_lower_def path_segments_def

lemma validateFilePath_dotdot_slash:
  "includes_str (normalize_separators path) ''../'' \<Longrightarrow> validateFilePath path g = Inl Traversal"
  by (auto simp add: validateFilePath_def Let_def string_defs)

text \<open>
  Claim C2. A path with a \<^verbatim>\<open>..\<close> segment is to fail with the traversal error in both
  grant states. The validator searches the normalised path for \<^verbatim>\<open>../\<close> (and for
  \<^verbatim>\<open>..\\<close>, which cannot occur after normalisation), so a \<^verbatim>\<open>..\<close> segment that ends
  the path is not seen: \<^verbatim>\<open>..\<close> and \<^verbatim>\<open>a/..\<close> are accepted, with and without a grant.
\<close>

theorem validateFilePath_trailing_dotdot_accepted:
  "validateFilePath ''..'' False = Inr True \<and> validateFilePath ''..'' True = Inr True
   \<and> validateFilePath ''a/..'' False = Inr True \<and> validateFilePath ''a/..'' True = Inr True"
  by (simp add: validateFilePath_def string_defs)

section \<open>Validation and the granted directory\<close>

text \<open>
  Without a grant every operation validates first: a path the validator rejects fails
  with the validator's error, and the state shows no host call.
\<close>

lemma fallback_validates_first:
  assumes "\<not> hasPermission s" and "validateFilePath path False = Inl e"
  shows "readFile this env path s = (Inl (Failed Read_file e), s)
     \<and> writeFile this env path content s = (Inl (Failed Write_file e), s)
     \<and> listFiles this env path s = (Inl (Failed List_files e), s)"
  using assms
  by (simp add: readFile_def readFile_file_def writeFile_def listFiles_def resolvePath_def
      await_def try_catch_def lift_def throws_def)

text \<open>
  Claim C1. Every path-taking operation is to validate its path before any lookup, also
  when a grant is active. With a grant active and a non-empty path, \<^verbatim>\<open>listFiles\<close>,
  \<^verbatim>\<open>readFile\<close> and \<^verbatim>\<open>writeFile\<close> resolve the path under the granted root without
  calling the validator: for the absolute path \<^verbatim>\<open>/notes/a.txt\<close>, which the validator
  rejects, the read returns the file's content, the listing of \<^verbatim>\<open>/notes\<close> returns its
  entry, and the write replaces the file.
\<close>

theorem granted_operations_skip_validation:
  "hasPermission demo_granted
   \<and> validateFilePath ''/notes/a.txt'' True = Inl Absolute_with_access
   \<and> validateFilePath ''/notes'' True = Inl Absolute_with_access
   \<and> fst (readFile demo_manager demo_host ''/notes/a.txt'' demo_granted) =
       Inr \<lparr>result_content = ''hello'', result_name = ''a.txt'', result_size = 5,
            result_type = ''text/plain'', result_lastModified = 7\<rparr>
   \<and> fst (listFiles demo_manager demo_host ''/notes'' demo_granted) =
       Inr [\<lparr>entry_name = ''a.txt'', entry_kind = Kind_file, entry_path = ''/notes/a.txt''\<rparr>]
   \<and> fst (writeFile demo_manager demo_host ''/notes/a.txt'' ''bye'' demo_granted) = Inr True
   \<and> fs (snd (writeFile demo_manager demo_host ''/notes/a.txt'' ''bye'' demo_granted)) =
       Dir [(''docs'', Dir [(''notes'', Dir [(''a.txt'', File ''bye'' 7)])])]"
  by code_simp

section \<open>The grant manager's session state\<close>

lemmas async_defs = returns_def throws_def await_def try_catch_def assign_def lift_def called_def

lemma same_session_refl [simp]: "same_session s s"
  by (simp add: same_session_def)

lemma initialize_session:
  "initialize env s = (x, s') \<Longrightarrow> same_session s s' \<and> idb s' = idb s"
  by (auto simp: initialize_def idb_request_def async_defs same_session_def
      split: option.splits if_splits)

lemma verifyPermission_session:
  "verifyPermission env h ask s = (x, s') \<Longrightarrow>
   same_session s s' \<and> idb s' = idb s \<and> isInitialized s' = isInitialized s"
  by (auto simp: verifyPermission_def host_queryPermission_def host_requestPermission_def
      async_defs same_session_def split: sum.splits if_splits)

lemma storage_getDirectoryHandle_session:
  "storage_getDirectoryHandle env ident s = (x, s') \<Longrightarrow> same_session s s'"
  by (auto simp: storage_getDirectoryHandle_def initialize_def idb_request_def async_defs
      same_session_def split: option.splits if_splits)

lemma storeDirectoryHandle_session:
  "storeDirectoryHandle env h n s = (x, s') \<Longrightarrow> same_session s s'"
  by (auto simp: storeDirectoryHandle_def Let_def initialize_def idb_request_def async_defs
      same_session_def split: option.splits if_splits)

lemma removeDirectoryHandle_session:
  "removeDirectoryHandle env ident s = (x, s') \<Longrightarrow> same_session s s'"
  by (auto simp: removeDirectoryHandle_def initialize_def idb_request_def async_defs
      same_session_def split: option.splits if_splits)

lemma requestDirectoryPermission_token:
  "token_invariant s \<Longrightarrow> token_invariant (snd (requestDirectoryPermission env s))"
  unfolding requestDirectoryPermission_def host_showDirectoryPicker_def
  apply (simp add: async_defs split: sum.splits prod.splits)
  apply (auto simp: token_invariant_def same_session_def
      dest!: verifyPermission_session storeDirectoryHandle_session)
  done

lemma switchDirectory_token:
  "token_invariant s \<Longrightarrow> token_invariant (snd (switchDirectory env directoryId s))"
  unfolding switchDirectory_def
  apply (simp add: async_defs split: sum.splits prod.splits option.splits)
  apply (auto simp: token_invariant_def same_session_def
      dest!: verifyPermission_session storage_getDirectoryHandle_session)
  done

lemma removeDirectory_token:
  "token_invariant s \<Longrightarrow> token_invariant (snd (removeDirectory env directoryId s))"
  unfolding removeDirectory_def
  apply (simp add: async_defs split: sum.splits prod.splits option.splits)
  apply (auto simp: token_invariant_def same_session_def dest!: removeDirectoryHandle_session)
  done

text \<open>
  Claim C3, as stated, fails: a fresh manager satisfies the invariant of the
  specification, and after a request whose permission prompt the user denies the token is
  the picked directory while no grant id is set and the cached permission is false.
\<close>

theorem session_invariant_broken_by_denied_request:
  "session_invariant (new_DirectoryPermissionManager (Dir [(''docs'', Dir [])]) [])
   \<and> \<not> session_invariant
         (snd (requestDirectoryPermission demo_host
                 (new_DirectoryPermissionManager (Dir [(''docs'', Dir [])]) [])))"
  by code_simp

text \<open>
  The states the amended invariant admits are all reached: no token (the fresh
  manager), a token alone (a denied request), a token and a grant id with the cached
  permission false (a denied switch), and all three (the active grant).
\<close>

lemma token_invariant_states_reached:
  "rootDirectoryHandle (new_DirectoryPermissionManager (Dir [(''docs'', Dir [])]) []) = None
   \<and> rootDirectoryHandle
         (snd (requestDirectoryPermission demo_host
                 (new_DirectoryPermissionManager (Dir [(''docs'', Dir [])]) []))) \<noteq> None
   \<and> currentDirectoryId
         (snd (requestDirectoryPermission demo_host
                 (new_DirectoryPermissionManager (Dir [(''docs'', Dir [])]) []))) = None
   \<and> currentDirectoryId (snd (switchDirectory demo_host ''dir_1_x'' demo_granted)) \<noteq> None
   \<and> \<not> permissionGranted (snd (switchDirectory demo_host ''dir_1_x'' demo_granted))
   \<and> rootDirectoryHandle demo_granted \<noteq> None \<and> currentDirectoryId demo_granted \<noteq> None
   \<and> permissionGranted demo_granted"
  by code_simp

text \<open>
  Claim C3, amended. A true cached permission implies a non-null grant id, and a
  non-null grant id implies a non-null token; so the token is non-null whenever the
  grant id is non-null and the last verification succeeded, and \<open>hasPermission\<close>
  implies an active grant id. This holds in the initial state and is preserved by
  \<^verbatim>\<open>requestDirectoryPermission\<close>, \<^verbatim>\<open>switchDirectory\<close> and \<^verbatim>\<open>removeDirectory\<close>
  on every host, whatever the pickers, the permission prompts and the store answer,
  failures included.
\<close>

theorem token_invariant_preserved:
  "token_invariant (new_DirectoryPermissionManager tree store)
   \<and> (token_invariant s \<longrightarrow>
        token_invariant (snd (requestDirectoryPermission env s))
        \<and> token_invariant (snd (switchDirectory env directoryId s))
        \<and> token_invariant (snd (removeDirectory env directoryId s)))"
  using requestDirectoryPermission_token switchDirectory_token removeDirectory_token
  by (simp add: token_invariant_def new_DirectoryPermissionManager_def)

text \<open>The amended invariant at the session with an active grant, on the denying host.\<close>

theorem token_invariant_preserved_witness:
  "token_invariant demo_granted
   \<and> token_invariant (snd (requestDirectoryPermission demo_host demo_granted))
   \<and> token_invariant (snd (switchDirectory demo_host ''dir_1_x'' demo_granted))
   \<and> token_invariant (snd (removeDirectory demo_host ''dir_1_x'' demo_granted))"
proof -
  have h: "token_invariant demo_granted"
    by (simp add: token_invariant_def demo_granted_def)
  from h token_invariant_preserved [of "Dir []" "[]" demo_granted demo_host "''dir_1_x''"]
  show ?thesis by simp
qed

section \<open>Switching the active directory\<close>

lemma switchDirectory_unknown:
  assumes "map_of (idb s) directoryId = None"
  shows "fst (switchDirectory env directoryId s) =
           Inl (Failed Switch_directory
                  (case fst (storage_getDirectoryHandle env directoryId s) of
                     Inl e \<Rightarrow> e | Inr found \<Rightarrow> Directory_not_found directoryId))"
proof -
  obtain x s1 where g: "storage_getDirectoryHandle env directoryId s = (x, s1)"
    by (cases "storage_getDirectoryHandle env directoryId s")
  have "x = Inr None \<or> (\<exists>e. x = Inl e)"
    using g assms
    by (auto simp: storage_getDirectoryHandle_def initialize_def idb_request_def async_defs
        split: option.splits if_splits sum.splits prod.splits)
  then show ?thesis
    using g by (auto simp: switchDirectory_def async_defs)
qed

lemma switchDirectory_thrown:
  "fst (switchDirectory env directoryId s) = Inl e \<Longrightarrow>
   same_session s (snd (switchDirectory env directoryId s))"
  unfolding switchDirectory_def
  apply (simp add: async_defs split: sum.splits prod.splits option.splits if_splits)
  apply (auto simp: same_session_def
      dest!: verifyPermission_session storage_getDirectoryHandle_session)
  done

lemma switchDirectory_not_switched:
  "fst (switchDirectory env directoryId s) \<noteq> Inr True \<Longrightarrow>
   rootDirectoryHandle (snd (switchDirectory env directoryId s)) = rootDirectoryHandle s
   \<and> currentDirectoryId (snd (switchDirectory env directoryId s)) = currentDirectoryId s"
  unfolding switchDirectory_def
  apply (simp add: async_defs split: sum.splits prod.splits option.splits if_splits)
  apply (auto simp: same_session_def
      dest!: verifyPermission_session storage_getDirectoryHandle_session)
  done

text \<open>
  Claim C4, as stated, fails: for an id that the store does not hold,
  \<^verbatim>\<open>switchDirectory\<close> does not return false, it throws (the message "Directory with ID
  ... not found", wrapped as "Failed to switch directory").
\<close>

theorem switchDirectory_unknown_id_throws:
  "map_of (idb demo_granted) ''dir_2_y'' = None
   \<and> fst (switchDirectory demo_host ''dir_2_y'' demo_granted) =
       Inl (Failed Switch_directory (Directory_not_found ''dir_2_y''))
   \<and> fst (switchDirectory demo_host ''dir_2_y'' demo_granted) \<noteq> Inr False"
  by code_simp

text \<open>
  Claim C4, amended. For every id absent from the store, \<^verbatim>\<open>switchDirectory\<close> throws
  "Failed to switch directory" around the not-found error (or around the store's error,
  when the lookup itself fails) and leaves the session state (token, cached permission,
  active id) unchanged. For every switch that does not succeed (an error thrown or false
  returned) the token and the active id are unchanged.
\<close>

theorem switchDirectory_failure:
  "(map_of (idb s) directoryId = None \<longrightarrow>
      fst (switchDirectory env directoryId s) =
        Inl (Failed Switch_directory
               (case fst (storage_getDirectoryHandle env directoryId s) of
                  Inl e \<Rightarrow> e | Inr found \<Rightarrow> Directory_not_found directoryId))
      \<and> same_session s (snd (switchDirectory env directoryId s)))
   \<and> (fst (switchDirectory env directoryId s) \<noteq> Inr True \<longrightarrow>
        rootDirectoryHandle (snd (switchDirectory env directoryId s)) = rootDirectoryHandle s
        \<and> currentDirectoryId (snd (switchDirectory env directoryId s)) = currentDirectoryId s)"
  using switchDirectory_unknown [of s directoryId env]
    switchDirectory_thrown [of env directoryId s]
    switchDirectory_not_switched [of env directoryId s]
  by auto

text \<open>
  The amended claim at an unknown id, and at the known id when the user denies the
  permission prompt: false is returned, with the token and the active id as before.
\<close>

theorem switchDirectory_failure_witness:
  "map_of (idb demo_granted) ''dir_2_y'' = None
   \<and> fst (switchDirectory demo_host ''dir_2_y'' demo_granted) =
       Inl (Failed Switch_directory (Directory_not_found ''dir_2_y''))
   \<and> same_session demo_granted (snd (switchDirectory demo_host ''dir_2_y'' demo_granted))
   \<and> fst (switchDirectory demo_host ''dir_1_x'' demo_granted) = Inr False
   \<and> rootDirectoryHandle (snd (switchDirectory demo_host ''dir_1_x'' demo_granted)) =
       Some [''docs'']
   \<and> currentDirectoryId (snd (switchDirectory demo_host ''dir_1_x'' demo_granted)) =
       Some ''dir_1_x''"
proof -
  have absent: "map_of (idb demo_granted) ''dir_2_y'' = None"
    by code_simp
  have found: "fst (storage_getDirectoryHandle demo_host ''dir_2_y'' demo_granted) = Inr None"
    by code_simp
  have denied: "fst (switchDirectory demo_host ''dir_1_x'' demo_granted) = Inr False"
    by code_simp
  have before: "rootDirectoryHandle demo_granted = Some [''docs'']
      \<and> currentDirectoryId demo_granted = Some ''dir_1_x''"
    by (simp add: demo_granted_def)
  from absent found denied before
    switchDirectory_failure [of demo_granted "''dir_2_y''" demo_host]
    switchDirectory_failure [of demo_granted "''dir_1_x''" demo_host]
  show ?thesis by simp
qed

section \<open>Removing a stored directory\<close>

lemma removeDirectory_active:
  "currentDirectoryId s = Some directoryId \<Longrightarrow>
   rootDirectoryHandle (snd (removeDirectory env directoryId s)) = None
   \<and> \<not> permissionGranted (snd (removeDirectory env directoryId s))
   \<and> currentDirectoryId (snd (removeDirectory env directoryId s)) = None"
  unfolding removeDirectory_def
  apply (simp add: async_defs split: sum.splits prod.splits option.splits)
  apply (auto simp: same_session_def dest!: removeDirectoryHandle_session)
  done

lemma no_root_no_file:
  "rootDirectoryHandle s = None \<Longrightarrow>
   getFileHandle env path s = (Inl No_directory_permission, s)
   \<and> createFileHandle env path s = (Inl No_directory_permission, s)"
  by (simp add: getFileHandle_def createFileHandle_def throws_def)

lemma removeDirectory_success:
  "isInitialized s \<or> idb_fault env Idb_open = None \<Longrightarrow> idb_fault env Idb_delete = None \<Longrightarrow>
   fst (removeDirectory env directoryId s) = Inr True"
  by (auto simp: removeDirectory_def removeDirectoryHandle_def initialize_def idb_request_def
      async_defs)

lemma removeDirectory_absent:
  "map_of (idb s) directoryId = None \<Longrightarrow> idb (snd (removeDirectory env directoryId s)) = idb s"
  by (auto simp: removeDirectory_def removeDirectoryHandle_def initialize_def idb_request_def
      async_defs map_of_eq_None_iff split: option.splits)

text \<open>
  Claim C6. Removing the active directory clears the token, the cached permission and
  the active id, whether or not the store's delete succeeds, so that afterwards resolving
  a file for any path (existing or to be created) fails with "No directory permission
  granted". Removing an id that the store does not hold returns true when the store
  itself works, and leaves the store as it was.
\<close>

theorem removeDirectory_clears_active:
  "(currentDirectoryId s = Some directoryId \<longrightarrow>
      rootDirectoryHandle (snd (removeDirectory env directoryId s)) = None
      \<and> \<not> permissionGranted (snd (removeDirectory env directoryId s))
      \<and> currentDirectoryId (snd (removeDirectory env directoryId s)) = None
      \<and> getFileHandle env path (snd (removeDirectory env directoryId s)) =
          (Inl No_directory_permission, snd (removeDirectory env directoryId s))
      \<and> createFileHandle env path (snd (removeDirectory env directoryId s)) =
          (Inl No_directory_permission, snd (removeDirectory env directoryId s)))
   \<and> (map_of (idb s) directoryId = None
        \<and> (isInitialized s \<or> idb_fault env Idb_open = None)
        \<and> idb_fault env Idb_delete = None \<longrightarrow>
        fst (removeDirectory env directoryId s) = Inr True
        \<and> idb (snd (removeDirectory env directoryId s)) = idb s)"
  using removeDirectory_active [of s directoryId env]
    no_root_no_file [of "snd (removeDirectory env directoryId s)" env path]
    removeDirectory_success [of s env directoryId]
    removeDirectory_absent [of s directoryId env]
  by auto

text \<open>The active grant removed, and an absent id removed, on the concrete session.\<close>

theorem removeDirectory_clears_active_witness:
  "rootDirectoryHandle (snd (removeDirectory demo_host ''dir_1_x'' demo_granted)) = None
   \<and> \<not> permissionGranted (snd (removeDirectory demo_host ''dir_1_x'' demo_granted))
   \<and> currentDirectoryId (snd (removeDirectory demo_host ''dir_1_x'' demo_granted)) = None
   \<and> fst (getFileHandle demo_host ''notes/a.txt''
             (snd (removeDirectory demo_host ''dir_1_x'' demo_granted))) =
       Inl No_directory_permission
   \<and> fst (removeDirectory demo_host ''dir_2_y'' demo_granted) = Inr True
   \<and> idb (snd (removeDirectory demo_host ''dir_2_y'' demo_granted)) = idb demo_granted"
proof -
  have active: "currentDirectoryId demo_granted = Some ''dir_1_x''"
    by (simp add: demo_granted_def)
  have absent: "map_of (idb demo_granted) ''dir_2_y'' = None"
    by code_simp
  have store: "isInitialized demo_granted \<and> idb_fault demo_host Idb_delete = None"
    by (simp add: demo_granted_def demo_host_def)
  from active absent store
    removeDirectory_clears_active [of demo_granted "''dir_1_x''" demo_host "''notes/a.txt''"]
    removeDirectory_clears_active [of demo_granted "''dir_2_y''" demo_host "''notes/a.txt''"]
  show ?thesis by simp
qed

section \<open>Listing the stored directories: one failing check does not abort the listing\<close>

lemma verify_directory_listed:
  "\<exists>s'. verify_directory env dir s = (Inr (listed_directory env dir), s')"
  by (auto simp: verify_directory_def verifyPermission_def host_queryPermission_def
      listed_directory_def async_defs split: sum.splits)

lemma verify_directories_listed:
  "\<exists>s'. verify_directories env directories acc s =
          (Inr (acc @ map (listed_directory env) directories), s')"
proof (induction directories arbitrary: acc s)
  case Nil
  show ?case by (simp add: returns_def)
next
  case (Cons dir directories)
  obtain s1 where v: "verify_directory env dir s = (Inr (listed_directory env dir), s1)"
    using verify_directory_listed by blast
  from Cons.IH [of "acc @ [listed_directory env dir]" s1] v
  show ?case by (auto simp: await_def)
qed

lemma getStoredDirectories_listed:
  "fst (getStoredDirectories env s) =
     (case fst (getAllDirectoryHandles env s) of
        Inl e \<Rightarrow> Inl (Failed Get_stored_directories e)
      | Inr directories \<Rightarrow> Inr (map (listed_directory env) directories))"
proof (cases "getAllDirectoryHandles env s")
  case (Pair r s1)
  show ?thesis
  proof (cases r)
    case (Inl e)
    with Pair show ?thesis by (simp add: getStoredDirectories_def await_def try_catch_def throws_def)
  next
    case (Inr directories)
    obtain s2 where "verify_directories env directories [] s1 =
        (Inr (map (listed_directory env) directories), s2)"
      using verify_directories_listed [of env directories "[]" s1] by auto
    with Pair Inr show ?thesis
      by (simp add: getStoredDirectories_def await_def try_catch_def)
  qed
qed

text \<open>
  Claim C7. For every store content and every host, \<^verbatim>\<open>getStoredDirectories\<close> returns
  one record per stored grant, in order, each as the specification describes it; the only
  error it can throw is the store's own, when the grants cannot be fetched. A grant whose
  permission check throws is listed with \<open>hasPermission\<close> false and the error attached.
\<close>

theorem getStoredDirectories_never_aborts:
  "fst (getStoredDirectories env s) =
     (case fst (getAllDirectoryHandles env s) of
        Inl e \<Rightarrow> Inl (Failed Get_stored_directories e)
      | Inr directories \<Rightarrow> Inr (map (listed_directory env) directories))
   \<and> vd_id (listed_directory env dir) = dir_id dir
   \<and> (queryPermission env (dir_handle dir) = Inl e \<longrightarrow>
        \<not> vd_hasPermission (listed_directory env dir)
        \<and> vd_error (listed_directory env dir) = Some e)"
  using getStoredDirectories_listed [of env s]
  by (simp add: listed_directory_def)

text \<open>Two stored grants; the check of the first throws, the second is still listed.\<close>

theorem getStoredDirectories_never_aborts_witness:
  "fst (getStoredDirectories demo_throwing_host demo_two_grants) =
     Inr [\<lparr>vd_id = ''dir_1_x'', vd_name = ''docs'', vd_path = ''docs'',
           vd_hasPermission = False, vd_dateAdded = ''2025-03-03T11:28:56.000Z'',
           vd_error = Some (Host ''InvalidStateError'')\<rparr>,
          \<lparr>vd_id = ''dir_2_y'', vd_name = ''music'', vd_path = ''music'',
           vd_hasPermission = True, vd_dateAdded = ''2025-03-04T09:00:00.000Z'',
           vd_error = None\<rparr>]"
proof -
  have stored: "fst (getAllDirectoryHandles demo_throwing_host demo_two_grants) =
      Inr (map snd (idb demo_two_grants))"
    by code_simp
  have throwing: "queryPermission demo_throwing_host (dir_handle demo_record) =
      Inl (Host ''InvalidStateError'')"
    by code_simp
  have listed: "map (listed_directory demo_throwing_host) (map snd (idb demo_two_grants)) =
     [\<lparr>vd_id = ''dir_1_x'', vd_name = ''docs'', vd_path = ''docs'',
       vd_hasPermission = False, vd_dateAdded = ''2025-03-03T11:28:56.000Z'',
       vd_error = Some (Host ''InvalidStateError'')\<rparr>,
      \<lparr>vd_id = ''dir_2_y'', vd_name = ''music'', vd_path = ''music'',
       vd_hasPermission = True, vd_dateAdded = ''2025-03-04T09:00:00.000Z'',
       vd_error = None\<rparr>]"
    by code_simp
  from stored throwing listed
    getStoredDirectories_never_aborts [of demo_throwing_host demo_two_grants demo_record
      "Host ''InvalidStateError''"]
  show ?thesis by simp
qed

section \<open>Reading: the size ceiling comes before the content\<close>

lemma host_getDirectoryHandle_calls:
  "calls (snd (host_getDirectoryHandle h name create s)) =
     calls s @ [GetDirectoryHandle h name create]"
  by (simp add: host_getDirectoryHandle_def async_defs split: option.splits node.splits)

lemma host_getFileHandle_calls:
  "calls (snd (host_getFileHandle env h name create s)) = calls s @ [GetFileHandle h name create]"
  by (simp add: host_getFileHandle_def async_defs split: option.splits node.splits)

lemma host_getFile_calls:
  "calls (snd (host_getFile env h s)) = calls s @ [GetFile h]"
  by (simp add: host_getFile_def async_defs split: option.splits node.splits)

lemma navigate_decode:
  "filter is_decode (calls (snd (navigate currentDir segments create s))) =
     filter is_decode (calls s)"
proof (induction segments arbitrary: currentDir s)
  case Nil
  show ?case by (simp add: returns_def)
next
  case (Cons segment segments)
  obtain x s1 where g: "host_getDirectoryHandle currentDir segment create s = (x, s1)"
    by (cases "host_getDirectoryHandle currentDir segment create s")
  have c: "calls s1 = calls s @ [GetDirectoryHandle currentDir segment create]"
    using host_getDirectoryHandle_calls [of currentDir segment create s] g by simp
  show ?case
  proof (cases x)
    case (Inl e)
    with g c show ?thesis by (simp add: await_def)
  next
    case (Inr next_dir)
    with g c Cons.IH [of next_dir s1] show ?thesis by (simp add: await_def)
  qed
qed

lemma getFileHandle_decode:
  "filter is_decode (calls (snd (getFileHandle env path s))) = filter is_decode (calls s)"
proof (cases "rootDirectoryHandle s")
  case None
  then show ?thesis by (simp add: getFileHandle_def throws_def)
next
  case (Some root)
  show ?thesis
  proof (cases "path_segments path = []")
    case True
    with Some show ?thesis by (simp add: getFileHandle_def throws_def try_catch_def)
  next
    case False
    obtain x s1 where n: "navigate root (butlast (path_segments path)) False s = (x, s1)"
      by (cases "navigate root (butlast (path_segments path)) False s")
    have d: "filter is_decode (calls s1) = filter is_decode (calls s)"
      using navigate_decode [of root "butlast (path_segments path)" False s] n by simp
    show ?thesis
    proof (cases x)
      case (Inl e)
      with Some False n d show ?thesis
        by (simp add: getFileHandle_def Let_def throws_def try_catch_def await_def)
    next
      case (Inr currentDir)
      obtain y s2 where f: "host_getFileHandle env currentDir (last (path_segments path)) False s1 = (y, s2)"
        by (cases "host_getFileHandle env currentDir (last (path_segments path)) False s1")
      have "calls s2 = calls s1 @ [GetFileHandle currentDir (last (path_segments path)) False]"
        using host_getFileHandle_calls [of env currentDir "last (path_segments path)" False s1] f
        by simp
      with Some False n d Inr f show ?thesis
        by (cases y) (simp_all add: getFileHandle_def Let_def throws_def try_catch_def await_def)
    qed
  qed
qed

lemma readFile_file_decode:
  "filter is_decode (calls (snd (readFile_file this env filePath s))) = filter is_decode (calls s)"
proof (cases "hasPermission s \<and> filePath \<noteq> []")
  case True
  obtain x s1 where g: "getFileHandle env filePath s = (x, s1)"
    by (cases "getFileHandle env filePath s")
  have d: "filter is_decode (calls s1) = filter is_decode (calls s)"
    using getFileHandle_decode [of env filePath s] g by simp
  show ?thesis
  proof (cases x)
    case (Inl e)
    with True g d show ?thesis by (simp add: readFile_file_def await_def)
  next
    case (Inr fileHandle)
    with True g d host_getFile_calls [of env fileHandle s1] show ?thesis
      by (simp add: readFile_file_def await_def)
  qed
next
  case False
  then have e: "readFile_file this env filePath s =
      await (resolvePath this filePath) (\<lambda>fullPath.
        await (host_showOpenFilePicker env) (\<lambda>fileHandle. host_getFile env fileHandle)) s"
    by (auto simp add: readFile_file_def)
  show ?thesis
    unfolding e
    by (auto simp: resolvePath_def host_showOpenFilePicker_def host_getFile_def async_defs
        split: sum.splits option.splits node.splits)
qed

text \<open>
  Claim C8. Whenever the file that \<^verbatim>\<open>readFile\<close> obtains (under the granted directory
  or from the picker) is larger than \<open>maxFileSize\<close>, \<^verbatim>\<open>readFile\<close> throws the size
  error, and it stops in the state reached when the file was obtained: no call that
  decodes content (\<^verbatim>\<open>text()\<close>, \<^verbatim>\<open>readAsDataURL\<close>) has been made.
\<close>

theorem readFile_too_large:
  assumes "readFile_file this env filePath s = (Inr file, s1)"
    and "file_size file > maxFileSize this"
  shows "readFile this env filePath s =
           (Inl (Failed Read_file (File_too_large (maxFileSize this))), s1)
         \<and> filter is_decode (calls s1) = filter is_decode (calls s)"
  using assms readFile_file_decode [of this env filePath s]
  by (simp add: readFile_def readFile_content_def await_def try_catch_def throws_def)

text \<open>The five-byte file read with a ceiling of three bytes.\<close>

theorem readFile_too_large_witness:
  "fst (readFile demo_small_manager demo_host ''notes/a.txt'' demo_granted) =
     Inl (Failed Read_file (File_too_large 3))
   \<and> filter is_decode
        (calls (snd (readFile demo_small_manager demo_host ''notes/a.txt'' demo_granted))) = []"
proof -
  define obtained_file where "obtained_file =
    \<lparr>file_name = ''a.txt'', file_size = 5, file_type = ''text/plain'',
     file_lastModified = 7, file_bytes = ''hello''\<rparr>"
  define s1 where
    "s1 = snd (readFile_file demo_small_manager demo_host ''notes/a.txt'' demo_granted)"
  have "fst (readFile_file demo_small_manager demo_host ''notes/a.txt'' demo_granted) = Inr obtained_file"
    unfolding obtained_file_def by code_simp
  then have obtained:
    "readFile_file demo_small_manager demo_host ''notes/a.txt'' demo_granted =
       (Inr obtained_file, s1)"
    by (simp add: s1_def prod_eq_iff)
  have large: "file_size obtained_file > maxFileSize demo_small_manager"
    by (simp add: obtained_file_def demo_small_manager_def new_FileAccessManager_def)
  have ceiling: "maxFileSize demo_small_manager = 3"
    by (simp add: demo_small_manager_def new_FileAccessManager_def)
  have before: "calls demo_granted = []"
    by (simp add: demo_granted_def)
  from readFile_too_large [OF obtained large] ceiling before
  show ?thesis by simp
qed

section \<open>Reading with an empty path\<close>

text \<open>
  Claim C10. With a grant active, \<^verbatim>\<open>readFile\<close> with the empty path is the picker
  branch: its first host call is the open-file picker, it reads the picked file, and it
  makes no lookup in any directory.
\<close>

theorem readFile_empty_path_uses_picker:
  assumes "hasPermission s"
  shows "readFile this env [] s =
           try_catch
             (await (host_showOpenFilePicker env) (\<lambda>fileHandle.
              await (host_getFile env fileHandle) (\<lambda>file. readFile_content this env file)))
             (\<lambda>error. throws (Failed Read_file error)) s
         \<and> take (Suc (length (calls s))) (calls (snd (readFile this env [] s))) =
             calls s @ [ShowOpenFilePicker]
         \<and> filter is_lookup (calls (snd (readFile this env [] s))) = filter is_lookup (calls s)"
  by (auto simp: readFile_def readFile_file_def readFile_content_def resolvePath_def
      validateFilePath_def host_showOpenFilePicker_def host_getFile_def host_text_def
      host_readAsDataURL_def async_defs Let_def
      split: sum.splits option.splits node.splits)

text \<open>
  On the session with an active grant: the user picks a file, and that file is read with
  the picker call alone before it.
\<close>

theorem readFile_empty_path_uses_picker_witness:
  "hasPermission demo_granted
   \<and> take (Suc (length (calls demo_granted)))
        (calls (snd (readFile demo_manager demo_picking_host [] demo_granted))) =
       calls demo_granted @ [ShowOpenFilePicker]
   \<and> filter is_lookup (calls (snd (readFile demo_manager demo_picking_host [] demo_granted))) =
       filter is_lookup (calls demo_granted)
   \<and> calls (snd (readFile demo_manager demo_picking_host [] demo_granted)) =
       [ShowOpenFilePicker, GetFile [''docs'', ''notes'', ''a.txt''], Text ''a.txt'']"
proof -
  have granted: "hasPermission demo_granted"
    by (simp add: hasPermission_def demo_granted_def)
  have trace: "calls (snd (readFile demo_manager demo_picking_host [] demo_granted)) =
       [ShowOpenFilePicker, GetFile [''docs'', ''notes'', ''a.txt''], Text ''a.txt'']"
    by code_simp
  from granted trace
    readFile_empty_path_uses_picker [OF granted, of demo_manager demo_picking_host]
  show ?thesis by blast
qed

section \<open>The directory tree\<close>

lemma lookup_append:
  "lookup n (h @ p) = (case lookup n h of None \<Rightarrow> None | Some m \<Rightarrow> lookup m p)"
proof (induction h arbitrary: n)
  case Nil
  show ?case by simp
next
  case (Cons x xs)
  show ?case
    by (cases n) (auto simp: Cons.IH split: option.splits)
qed

lemma update_at_append:
  "update_at (h @ p) f n = update_at h (update_at p f) n"
proof (induction h arbitrary: n)
  case Nil
  show ?case by simp
next
  case (Cons x xs)
  show ?case
    by (cases n) (auto simp: Cons.IH split: option.splits)
qed

lemma lookup_update_at:
  "lookup (update_at h f n) h = map_option f (lookup n h)"
proof (induction h arbitrary: n)
  case Nil
  show ?case by simp
next
  case (Cons x xs)
  show ?case
    by (cases n) (auto simp: Cons.IH update_conv' split: option.splits)
qed

lemma update_absent_append:
  "map_of es k = None \<Longrightarrow> AList.update k v (es @ ys) = es @ AList.update k v ys"
  by (induction es) (auto split: if_splits)

lemmas tree_simps = lookup_append update_at_append lookup_update_at update_absent_append
  map_add_def update_conv'

lemma update_absent: "map_of cs k = None \<Longrightarrow> AList.update k v cs = cs @ [(k, v)]"
  using update_absent_append [of cs k v "[]"] by simp

lemma directory_entries:
  assumes "map_option kind_of (lookup tree h) = Some Kind_directory"
  shows "\<exists>es. lookup tree h = Some (Dir es)"
proof (cases "lookup tree h")
  case None
  with assms show ?thesis by simp
next
  case (Some n)
  with assms show ?thesis by (cases n) (simp_all add: kind_of_def)
qed

lemma lookup_below:
  "lookup n (h @ [a, b]) = (case lookup n (h @ [a]) of None \<Rightarrow> None | Some m \<Rightarrow> lookup m [b])"
  using lookup_append [of n "h @ [a]" "[b]"] by simp

section \<open>Writing, then reading or listing\<close>

lemmas host_defs = host_getDirectoryHandle_def host_getFileHandle_def host_values_def
  host_getFile_def host_text_def host_readAsDataURL_def host_createWritable_def host_write_def
  host_close_def valid_name_def handle_name_def add_child_def kind_of_def

lemma segments_notes_a: "path_segments ''notes/a.txt'' = [''notes'', ''a.txt'']"
  by (simp add: string_defs)

lemma segments_notes: "path_segments ''notes'' = [''notes'']"
  by (simp add: string_defs)

text \<open>
  The write, run on a symbolic state: the granted root is a directory with entries
  \<open>es\<close>, and \<^verbatim>\<open>notes\<close> is absent from it, or a directory in which
  \<^verbatim>\<open>a.txt\<close> is absent or a file.
\<close>

lemma writeFile_notes_absent:
  assumes "rootDirectoryHandle s = Some root" and "permissionGranted s"
    and "lookup (fs s) root = Some (Dir es)"
    and "map_of es ''notes'' = None"
  shows "\<exists>s'. writeFile this env ''notes/a.txt'' content s = (Inr True, s')
     \<and> same_session s s'
     \<and> lookup (fs s') root =
         Some (Dir (es @ [(''notes'', Dir [(''a.txt'', File content (clock env))])]))"
  using assms
  by (simp add: writeFile_def hasPermission_def createFileHandle_def segments_notes_a Let_def
      async_defs host_defs slash_def tree_simps same_session_def)

lemma writeFile_notes_present:
  assumes "rootDirectoryHandle s = Some root" and "permissionGranted s"
    and "lookup (fs s) root = Some (Dir es)"
    and "map_of es ''notes'' = Some (Dir cs)"
    and "map_of cs ''a.txt'' = None \<or> map_of cs ''a.txt'' = Some (File b t)"
  shows "\<exists>s'. writeFile this env ''notes/a.txt'' content s = (Inr True, s')
     \<and> same_session s s'
     \<and> lookup (fs s') root =
         Some (Dir (AList.update ''notes''
                      (Dir (AList.update ''a.txt'' (File content (clock env)) cs)) es))"
  using assms(5)
proof
  assume "map_of cs ''a.txt'' = None"
  with assms(1-4) show ?thesis
    by (simp add: writeFile_def hasPermission_def createFileHandle_def segments_notes_a Let_def
      async_defs host_defs slash_def tree_simps same_session_def update_absent)
next
  assume "map_of cs ''a.txt'' = Some (File b t)"
  with assms(1-4) show ?thesis
    by (simp add: writeFile_def hasPermission_def createFileHandle_def segments_notes_a Let_def
      async_defs host_defs slash_def tree_simps same_session_def)
qed

lemma listFiles_notes:
  assumes "rootDirectoryHandle s = Some root" and "permissionGranted s"
    and "lookup (fs s) root = Some (Dir es)"
    and "map_of es ''notes'' = Some (Dir cs)"
  shows "fst (listFiles this env ''notes'' s) =
     Inr (map (\<lambda>(name, child).
            \<lparr>entry_name = name, entry_kind = kind_of child,
             entry_path = collapse_slashes (''notes/'' @ name)\<rparr>) cs)"
  using assms
  by (simp add: listFiles_def hasPermission_def getDirectoryHandle_def segments_notes
      async_defs host_defs slash_def tree_simps case_prod_unfold)

lemma readFile_notes:
  assumes "rootDirectoryHandle s = Some root" and "permissionGranted s"
    and "lookup (fs s) root = Some (Dir es)"
    and "map_of es ''notes'' = Some (Dir cs)"
    and "map_of cs ''a.txt'' = Some (File b t)"
    and "length b \<le> maxFileSize this"
    and "allowedExtensions this = None"
  shows "fst (readFile this env ''notes/a.txt'' s) =
     Inr \<lparr>result_content = b, result_name = ''a.txt'', result_size = length b,
          result_type = mime_type env ''a.txt'', result_lastModified = t\<rparr>"
proof -
  have text_file: "isTextFile ''a.txt''"
    by (simp add: isTextFile_def getFileExtension_def lastIndexOf_def textExtensions_def
        string_defs)
  from assms text_file show ?thesis
    by (simp add: readFile_def readFile_file_def readFile_content_def hasPermission_def
        getFileHandle_def segments_notes_a Let_def
        async_defs host_defs slash_def tree_simps)
qed

lemma writeFile_notes:
  assumes root: "rootDirectoryHandle s = Some root" and granted: "permissionGranted s"
    and dir: "lookup (fs s) root = Some (Dir es)"
    and no_file: "map_option kind_of (lookup (fs s) (root @ [''notes''])) \<noteq> Some Kind_file"
    and no_dir: "map_option kind_of (lookup (fs s) (root @ [''notes'', ''a.txt''])) \<noteq> Some Kind_directory"
  shows "\<exists>s' es' cs'. writeFile this env ''notes/a.txt'' content s = (Inr True, s')
     \<and> same_session s s'
     \<and> lookup (fs s') root = Some (Dir es')
     \<and> map_of es' ''notes'' = Some (Dir cs')
     \<and> map_of cs' ''a.txt'' = Some (File content (clock env))
     \<and> (lookup (fs s) (root @ [''notes'']) = None \<or> lookup (fs s) (root @ [''notes'']) = Some (Dir [])
          \<longrightarrow> cs' = [(''a.txt'', File content (clock env))])"
proof (cases "map_of es ''notes''")
  case None
  from writeFile_notes_absent [OF root granted dir None, of this env content]
  obtain s' where w: "writeFile this env ''notes/a.txt'' content s = (Inr True, s')"
    "same_session s s'"
    "lookup (fs s') root = Some (Dir (es @ [(''notes'', Dir [(''a.txt'', File content (clock env))])]))"
    by blast
  have "map_of (es @ [(''notes'', Dir [(''a.txt'', File content (clock env))])]) ''notes'' =
      Some (Dir [(''a.txt'', File content (clock env))])"
    using None by (simp add: map_add_def)
  with w show ?thesis by auto
next
  case (Some child)
  show ?thesis
  proof (cases child)
    case (File b t)
    with Some dir no_file show ?thesis
      by (simp add: lookup_append kind_of_def)
  next
    case (Dir cs)
    have here: "lookup (fs s) (root @ [''notes'']) = Some (Dir cs)"
      using Some Dir dir by (simp add: lookup_append)
    have "map_of cs ''a.txt'' = None \<or> (\<exists>b t. map_of cs ''a.txt'' = Some (File b t))"
    proof (cases "map_of cs ''a.txt''")
      case None
      then show ?thesis by simp
    next
      case (Some entry)
      with no_dir dir \<open>map_of es ''notes'' = Some child\<close> Dir show ?thesis
        by (cases entry) (simp_all add: lookup_append kind_of_def)
    qed
    then obtain b t where f: "map_of cs ''a.txt'' = None \<or> map_of cs ''a.txt'' = Some (File b t)"
      by blast
    from Some Dir have n: "map_of es ''notes'' = Some (Dir cs)" by simp
    from writeFile_notes_present [OF root granted dir n f, of this env content]
    obtain s' where w: "writeFile this env ''notes/a.txt'' content s = (Inr True, s')"
      "same_session s s'"
      "lookup (fs s') root =
         Some (Dir (AList.update ''notes''
                      (Dir (AList.update ''a.txt'' (File content (clock env)) cs)) es))"
      by blast
    have "cs = [] \<longrightarrow> AList.update ''a.txt'' (File content (clock env)) cs =
        [(''a.txt'', File content (clock env))]"
      by simp
    with w here show ?thesis
      by (auto simp: update_conv')
  qed
qed

text \<open>
  Claim C9. With a grant active on a directory, \<open>maxFileSize\<close> 1024 and no extension
  list, writing \<^verbatim>\<open>hello\<close> to \<^verbatim>\<open>notes/a.txt\<close> succeeds and reading the same path
  then returns the content \<^verbatim>\<open>hello\<close>, the name \<^verbatim>\<open>a.txt\<close> and the size 5 (with the
  type and modification time the host gives the file), provided nothing is in the way:
  \<^verbatim>\<open>notes\<close> is not a file and \<^verbatim>\<open>notes/a.txt\<close> is not a directory.
\<close>

theorem write_then_read:
  assumes "hasPermission s" and "rootDirectoryHandle s = Some root"
    and "map_option kind_of (lookup (fs s) root) = Some Kind_directory"
    and "map_option kind_of (lookup (fs s) (root @ [''notes''])) \<noteq> Some Kind_file"
    and "map_option kind_of (lookup (fs s) (root @ [''notes'', ''a.txt''])) \<noteq> Some Kind_directory"
    and "maxFileSize this = 1024" and "allowedExtensions this = None"
  shows "fst (writeFile this env ''notes/a.txt'' ''hello'' s) = Inr True
     \<and> fst (readFile this env ''notes/a.txt''
               (snd (writeFile this env ''notes/a.txt'' ''hello'' s))) =
         Inr \<lparr>result_content = ''hello'', result_name = ''a.txt'', result_size = 5,
              result_type = mime_type env ''a.txt'', result_lastModified = clock env\<rparr>"
proof -
  from assms(1) have granted: "permissionGranted s"
    by (simp add: hasPermission_def)
  from directory_entries [OF assms(3)] obtain es where dir: "lookup (fs s) root = Some (Dir es)"
    by blast
  from writeFile_notes [OF assms(2) granted dir assms(4) assms(5), of this env "''hello''"]
  obtain s' es' cs' where w: "writeFile this env ''notes/a.txt'' ''hello'' s = (Inr True, s')"
    and same: "same_session s s'"
    and dir': "lookup (fs s') root = Some (Dir es')"
    and inside: "map_of es' ''notes'' = Some (Dir cs')"
    and written: "map_of cs' ''a.txt'' = Some (File ''hello'' (clock env))"
    by blast
  from same assms(2) granted have root': "rootDirectoryHandle s' = Some root"
    and granted': "permissionGranted s'"
    by (simp_all add: same_session_def)
  have size: "length ''hello'' \<le> maxFileSize this"
    using assms(6) by simp
  from readFile_notes [OF root' granted' dir' inside written size assms(7), of env] w
  show ?thesis by simp
qed

text \<open>The round trip on the empty granted directory.\<close>

theorem write_then_read_witness:
  "fst (writeFile demo_manager demo_host ''notes/a.txt'' ''hello'' demo_fresh) = Inr True
   \<and> fst (readFile demo_manager demo_host ''notes/a.txt''
             (snd (writeFile demo_manager demo_host ''notes/a.txt'' ''hello'' demo_fresh))) =
       Inr \<lparr>result_content = ''hello'', result_name = ''a.txt'', result_size = 5,
            result_type = ''text/plain'', result_lastModified = 7\<rparr>"
proof -
  have granted: "hasPermission demo_fresh"
    by code_simp
  have root: "rootDirectoryHandle demo_fresh = Some [''docs'']"
    by code_simp
  have dir: "map_option kind_of (lookup (fs demo_fresh) [''docs'']) = Some Kind_directory"
    by code_simp
  have no_file: "map_option kind_of (lookup (fs demo_fresh) ([''docs''] @ [''notes''])) \<noteq>
      Some Kind_file"
    by code_simp
  have no_dir: "map_option kind_of (lookup (fs demo_fresh) ([''docs''] @ [''notes'', ''a.txt''])) \<noteq>
      Some Kind_directory"
    by code_simp
  have ceiling: "maxFileSize demo_manager = 1024"
    by code_simp
  have any_type: "allowedExtensions demo_manager = None"
    by code_simp
  have host: "mime_type demo_host ''a.txt'' = ''text/plain'' \<and> clock demo_host = 7"
    by (simp add: demo_host_def)
  from write_then_read [OF granted root dir no_file no_dir ceiling any_type, of demo_host] host
  show ?thesis by simp
qed

text \<open>
  \<^verbatim>\<open>replace(/\/+/g, '/')\<close> is that collapse: it agrees with the description above on
  every string, its result has no two slashes in a row, and a string without two slashes
  in a row is returned as it is.
\<close>

lemma collapse_slashes_Cons:
  "collapse_slashes (x # p) =
     x # map fst (filter (\<lambda>(c, before). \<not> (c = slash \<and> before = Some slash))
                    (zip p (Some x # map Some p)))"
proof (induction p arbitrary: x)
  case Nil
  show ?case by simp
next
  case (Cons d cs)
  show ?case
    by (simp add: Cons.IH)
qed

lemma collapse_slashes_drops_repeated: "collapse_slashes p = drop_repeated_slashes p"
  by (cases p) (simp_all add: drop_repeated_slashes_def collapse_slashes_Cons)

lemma collapse_slashes_head: "\<exists>t. collapse_slashes (x # p) = x # t"
  by (simp add: collapse_slashes_Cons)

lemma collapse_slashes_no_repeat: "\<not> includes_str (collapse_slashes p) ''//''"
proof (induction p rule: collapse_slashes.induct)
  case 1
  show ?case by simp
next
  case (2 c)
  show ?case by simp
next
  case (3 c d cs)
  obtain t where t: "collapse_slashes (d # cs) = d # t"
    using collapse_slashes_head by blast
  show ?case
  proof (cases "c = slash \<and> d = slash")
    case True
    with 3 show ?thesis by simp
  next
    case False
    with 3 t show ?thesis by (auto simp: slash_def)
  qed
qed

lemma collapse_slashes_fixed:
  "\<not> includes_str p ''//'' \<Longrightarrow> collapse_slashes p = p"
  by (induction p rule: collapse_slashes.induct) (auto simp: slash_def)

lemma listFiles_resolved:
  assumes "hasPermission s" and "getDirectoryHandle directory s = (Inr dirHandle, s1)"
    and "lookup (fs s1) dirHandle = Some (Dir entries)"
  shows "fst (listFiles this env directory s) =
     Inr (map (\<lambda>(name, child).
            \<lparr>entry_name = name, entry_kind = kind_of child,
             entry_path = (if directory = [] then name
                           else collapse_slashes (directory @ ''/'' @ name))\<rparr>) entries)"
  using assms
  by (simp add: listFiles_def host_values_def async_defs case_prod_unfold)

lemma write_then_list:
  assumes "hasPermission s" and "rootDirectoryHandle s = Some root"
    and "map_option kind_of (lookup (fs s) root) = Some Kind_directory"
    and "lookup (fs s) (root @ [''notes'']) = None \<or> lookup (fs s) (root @ [''notes'']) = Some (Dir [])"
  shows "fst (writeFile this env ''notes/a.txt'' ''hello'' s) = Inr True
     \<and> fst (listFiles this env ''notes'' (snd (writeFile this env ''notes/a.txt'' ''hello'' s))) =
         Inr [\<lparr>entry_name = ''a.txt'', entry_kind = Kind_file, entry_path = ''notes/a.txt''\<rparr>]"
proof -
  from assms(1) have granted: "permissionGranted s"
    by (simp add: hasPermission_def)
  from directory_entries [OF assms(3)] obtain es where dir: "lookup (fs s) root = Some (Dir es)"
    by blast
  have no_file: "map_option kind_of (lookup (fs s) (root @ [''notes''])) \<noteq> Some Kind_file"
    using assms(4) by (auto simp: kind_of_def)
  have no_dir: "map_option kind_of (lookup (fs s) (root @ [''notes'', ''a.txt''])) \<noteq> Some Kind_directory"
  proof -
    have "lookup (fs s) (root @ [''notes'', ''a.txt'']) = None"
      using assms(4) by (auto simp add: lookup_below)
    then show ?thesis by simp
  qed
  from writeFile_notes [OF assms(2) granted dir no_file no_dir, of this env "''hello''"] assms(4)
  obtain s' es' where w: "writeFile this env ''notes/a.txt'' ''hello'' s = (Inr True, s')"
    and same: "same_session s s'"
    and dir': "lookup (fs s') root = Some (Dir es')"
    and inside: "map_of es' ''notes'' = Some (Dir [(''a.txt'', File ''hello'' (clock env))])"
    by auto
  from same assms(2) granted have root': "rootDirectoryHandle s' = Some root"
    and granted': "permissionGranted s'"
    by (simp_all add: same_session_def)
  from listFiles_notes [OF root' granted' dir' inside, of this env] w
  show ?thesis by (simp add: kind_of_def slash_def)
qed

text \<open>
  Claim C5. With a grant active, \<^verbatim>\<open>listFiles\<close> returns one record per entry of the
  directory the path resolves to, in the host's order: the entry's name, its kind, and
  as path the name alone for the empty directory argument and otherwise the argument, a
  slash and the name, with repeated separators collapsed: each slash that directly
  follows a slash is dropped, so that the result has no two slashes in a row and a join
  without two slashes in a row is unchanged. In particular, when \<^verbatim>\<open>notes\<close> does not
  exist or is an empty directory, writing \<^verbatim>\<open>notes/a.txt\<close> and then listing
  \<^verbatim>\<open>notes\<close> returns exactly the one entry for \<^verbatim>\<open>a.txt\<close>.
\<close>

theorem listFiles_granted:
  "(hasPermission s \<and> getDirectoryHandle directory s = (Inr dirHandle, s1)
      \<and> lookup (fs s1) dirHandle = Some (Dir entries) \<longrightarrow>
      fst (listFiles this env directory s) =
        Inr (map (\<lambda>(name, child).
               \<lparr>entry_name = name, entry_kind = kind_of child,
                entry_path = (if directory = [] then name
                              else drop_repeated_slashes (directory @ ''/'' @ name))\<rparr>)
             entries))
   \<and> \<not> includes_str (drop_repeated_slashes p) ''//''
   \<and> (\<not> includes_str p ''//'' \<longrightarrow> drop_repeated_slashes p = p)
   \<and> (hasPermission s \<and> rootDirectoryHandle s = Some root
        \<and> map_option kind_of (lookup (fs s) root) = Some Kind_directory
        \<and> (lookup (fs s) (root @ [''notes'']) = None
             \<or> lookup (fs s) (root @ [''notes'']) = Some (Dir [])) \<longrightarrow>
        fst (writeFile this env ''notes/a.txt'' ''hello'' s) = Inr True
        \<and> fst (listFiles this env ''notes''
                  (snd (writeFile this env ''notes/a.txt'' ''hello'' s))) =
            Inr [\<lparr>entry_name = ''a.txt'', entry_kind = Kind_file,
                  entry_path = ''notes/a.txt''\<rparr>])"
proof -
  have general: "hasPermission s \<and> getDirectoryHandle directory s = (Inr dirHandle, s1)
      \<and> lookup (fs s1) dirHandle = Some (Dir entries) \<longrightarrow>
      fst (listFiles this env directory s) =
        Inr (map (\<lambda>(name, child).
               \<lparr>entry_name = name, entry_kind = kind_of child,
                entry_path = (if directory = [] then name
                              else drop_repeated_slashes (directory @ ''/'' @ name))\<rparr>)
             entries)"
    using listFiles_resolved [of s directory dirHandle s1 entries this env]
    unfolding collapse_slashes_drops_repeated by blast
  have no_repeat: "\<not> includes_str (drop_repeated_slashes p) ''//''"
    using collapse_slashes_no_repeat [of p] by (simp add: collapse_slashes_drops_repeated)
  have fixed: "\<not> includes_str p ''//'' \<longrightarrow> drop_repeated_slashes p = p"
    using collapse_slashes_fixed [of p] by (simp add: collapse_slashes_drops_repeated)
  from general no_repeat fixed write_then_list [of s root this env]
  show ?thesis by blast
qed

text \<open>
  The listing of \<^verbatim>\<open>notes//\<close>, where the join \<^verbatim>\<open>notes///a.txt\<close> has a run of three
  slashes, the listing of the root of the granted directory, and the scenario on the
  empty granted directory.
\<close>

theorem listFiles_granted_witness:
  "fst (listFiles demo_manager demo_host ''notes//'' demo_granted) =
     Inr [\<lparr>entry_name = ''a.txt'', entry_kind = Kind_file, entry_path = ''notes/a.txt''\<rparr>]
   \<and> fst (listFiles demo_manager demo_host [] demo_granted) =
     Inr [\<lparr>entry_name = ''notes'', entry_kind = Kind_directory, entry_path = ''notes''\<rparr>]
   \<and> \<not> includes_str (drop_repeated_slashes ''notes///a.txt'') ''//''
   \<and> drop_repeated_slashes ''notes/a.txt'' = ''notes/a.txt''
   \<and> fst (writeFile demo_manager demo_host ''notes/a.txt'' ''hello'' demo_fresh) = Inr True
   \<and> fst (listFiles demo_manager demo_host ''notes''
             (snd (writeFile demo_manager demo_host ''notes/a.txt'' ''hello'' demo_fresh))) =
       Inr [\<lparr>entry_name = ''a.txt'', entry_kind = Kind_file, entry_path = ''notes/a.txt''\<rparr>]"
proof -
  have granted: "hasPermission demo_granted \<and> hasPermission demo_fresh"
    by code_simp
  have resolved_notes: "getDirectoryHandle ''notes//'' demo_granted =
      (Inr [''docs'', ''notes''],
       demo_granted\<lparr>calls := [GetDirectoryHandle [''docs''] ''notes'' False]\<rparr>)"
    by code_simp
  have entries_notes:
    "lookup (fs (demo_granted\<lparr>calls := [GetDirectoryHandle [''docs''] ''notes'' False]\<rparr>))
       [''docs'', ''notes''] = Some (Dir [(''a.txt'', File ''hello'' 7)])"
    by code_simp
  have joined: "drop_repeated_slashes (''notes//'' @ ''/'' @ ''a.txt'') = ''notes/a.txt''"
    by code_simp
  have kind_file: "kind_of (File ''hello'' 7) = Kind_file"
    by (simp add: kind_of_def)
  from granted resolved_notes entries_notes joined kind_file
    listFiles_granted [of demo_granted "''notes//''" "[''docs'', ''notes'']"
      "demo_granted\<lparr>calls := [GetDirectoryHandle [''docs''] ''notes'' False]\<rparr>"
      "[(''a.txt'', File ''hello'' 7)]" demo_manager demo_host]
  have repeated: "fst (listFiles demo_manager demo_host ''notes//'' demo_granted) =
     Inr [\<lparr>entry_name = ''a.txt'', entry_kind = Kind_file, entry_path = ''notes/a.txt''\<rparr>]"
    by simp
  have resolved: "getDirectoryHandle [] demo_granted = (Inr [''docs''], demo_granted)"
    by code_simp
  have entries: "lookup (fs demo_granted) [''docs''] =
      Some (Dir [(''notes'', Dir [(''a.txt'', File ''hello'' 7)])])"
    by code_simp
  have kind: "kind_of (Dir [(''a.txt'', File ''hello'' 7)]) = Kind_directory"
    by (simp add: kind_of_def)
  from granted resolved entries kind
    listFiles_granted [of demo_granted "[]" "[''docs'']" demo_granted
      "[(''notes'', Dir [(''a.txt'', File ''hello'' 7)])]" demo_manager demo_host]
  have first: "fst (listFiles demo_manager demo_host [] demo_granted) =
     Inr [\<lparr>entry_name = ''notes'', entry_kind = Kind_directory, entry_path = ''notes''\<rparr>]"
    by simp
  have clean: "\<not> includes_str ''notes/a.txt'' ''//''"
    by code_simp
  from clean listFiles_granted [of _ _ _ _ _ _ _ "''notes/a.txt''"]
  have unchanged: "drop_repeated_slashes ''notes/a.txt'' = ''notes/a.txt''"
    by blast
  from listFiles_granted [of _ _ _ _ _ _ _ "''notes///a.txt''"]
  have no_run: "\<not> includes_str (drop_repeated_slashes ''notes///a.txt'') ''//''"
    by blast
  have root: "rootDirectoryHandle demo_fresh = Some [''docs'']"
    by code_simp
  have dir: "map_option kind_of (lookup (fs demo_fresh) [''docs'']) = Some Kind_directory"
    by code_simp
  have absent: "lookup (fs demo_fresh) ([''docs''] @ [''notes'']) = None"
    by code_simp
  from granted root dir absent
    listFiles_granted [of demo_fresh _ _ _ _ demo_manager demo_host _ "[''docs'']"]
  have second: "fst (writeFile demo_manager demo_host ''notes/a.txt'' ''hello'' demo_fresh) = Inr True
   \<and> fst (listFiles demo_manager demo_host ''notes''
             (snd (writeFile demo_manager demo_host ''notes/a.txt'' ''hello'' demo_fresh))) =
       Inr [\<lparr>entry_name = ''a.txt'', entry_kind = Kind_file, entry_path = ''notes/a.txt''\<rparr>]"
    by simp
  from repeated first no_run unchanged second show ?thesis by blast
qed

end
